theory Spec2Isabelle
  imports Complex_Main "HOL-Library.Option_ord"
begin

section \<open>JavaScript numbers\<close>

text \<open>
  A JavaScript number is an IEEE 754 binary64 value. The finite ones are modelled by the
  rational they denote; \<open>fl\<close> rounds a rational to the nearest binary64 value, ties to
  even, with the 53-bit significand of normal numbers and the fixed exponent \<open>-1074\<close> of
  subnormal ones. \<open>normalise\<close> looks for the exponent \<open>e\<close> that brings the magnitude
  into \<open>[2^52, 2^53)\<close>; its first argument bounds the number of doublings and halvings
  and exceeds the exponent range of the format.
\<close>

definition pow2 :: "int \<Rightarrow> rat" where
  "pow2 e = (if 0 \<le> e then 2 ^ nat e else 1 / 2 ^ nat (- e))"

definition round_half_even :: "rat \<Rightarrow> int" where
  "round_half_even x =
     (let f = \<lfloor>x\<rfloor>; d = x - of_int f
      in if d < 1 / 2 then f else if 1 / 2 < d then f + 1
         else if even f then f else f + 1)"

fun normalise :: "nat \<Rightarrow> rat \<Rightarrow> int \<Rightarrow> rat \<times> int" where
  "normalise 0 x e = (x, e)"
| "normalise (Suc n) x e =
     (if x < 2 ^ 52 \<and> - 1074 < e then normalise n (2 * x) (e - 1)
      else if 2 ^ 53 \<le> x then normalise n (x / 2) (e + 1)
      else (x, e))"

definition fl :: "rat \<Rightarrow> rat" where
  "fl x = (if x = 0 then 0
           else let (y, e) = normalise 2200 \<bar>x\<bar> 0
                in sgn x * of_int (round_half_even y) * pow2 e)"

text \<open>\<open>Math.round\<close>: the nearest integer, a tie going towards \<open>+\<infinity>\<close>.\<close>

definition Math_round :: "rat \<Rightarrow> int" where
  "Math_round x = \<lfloor>x + 1 / 2\<rfloor>"

text \<open>
  \<open>Math.round((a / b) * 100)\<close> on two array lengths, as both statistics routes write it:
  the quotient is rounded to a double, then the product is.
\<close>

definition percentage :: "nat \<Rightarrow> nat \<Rightarrow> int" where
  "percentage a b = Math_round (fl (fl (of_nat a / of_nat b) * 100))"

datatype number = NaN | PosInfinity | NegInfinity | Finite rat

text \<open>The number a rational rounds to: beyond the largest double the result is infinite.\<close>

definition to_number :: "rat \<Rightarrow> number" where
  "to_number v =
     (let r = fl v
      in if 2 ^ 1024 \<le> \<bar>r\<bar> then (if r < 0 then NegInfinity else PosInfinity) else Finite r)"

subsection \<open>\<open>parseFloat\<close>\<close>

text \<open>
  \<open>parseFloat\<close> skips leading white space and reads the longest prefix that is a
  \<open>StrDecimalLiteral\<close>: a sign, then \<open>Infinity\<close> or digits with an optional fraction
  and an optional exponent. No such prefix gives \<open>NaN\<close>. Strings are byte strings here,
  so only the ASCII white space is recognised.
\<close>

definition is_space :: "char \<Rightarrow> bool" where
  "is_space c = ((of_char c :: nat) \<in> {9, 10, 11, 12, 13, 32})"

definition is_digit :: "char \<Rightarrow> bool" where
  "is_digit c = (48 \<le> (of_char c :: nat) \<and> (of_char c :: nat) \<le> 57)"

definition digits_value :: "string \<Rightarrow> nat" where
  "digits_value ds = foldl (\<lambda>acc c. 10 * acc + (of_char c - 48)) 0 ds"

definition pow10 :: "int \<Rightarrow> rat" where
  "pow10 e = (if 0 \<le> e then 10 ^ nat e else 1 / 10 ^ nat (- e))"

definition take_sign :: "string \<Rightarrow> bool \<times> string" where
  "take_sign s =
     (case s of
        [] \<Rightarrow> (False, s)
      | c # r \<Rightarrow> if c = CHR ''-'' then (True, r) else if c = CHR ''+'' then (False, r)
                 else (False, s))"

definition exponent_part :: "string \<Rightarrow> int" where
  "exponent_part s =
     (case s of
        [] \<Rightarrow> 0
      | c # r \<Rightarrow>
          if c = CHR ''e'' \<or> c = CHR ''E'' then
            (let (neg, r') = take_sign r; ds = takeWhile is_digit r'
             in if ds = [] then 0
                else if neg then - int (digits_value ds) else int (digits_value ds))
          else 0)"

definition parseFloat :: "string \<Rightarrow> number" where
  "parseFloat inputString =
     (let (neg, s) = take_sign (dropWhile is_space inputString)
      in if take 8 s = ''Infinity'' then (if neg then NegInfinity else PosInfinity)
         else
           let ip = takeWhile is_digit s;
               r1 = dropWhile is_digit s;
               (fp, r2) = (case r1 of
                             [] \<Rightarrow> ([], r1)
                           | c # r \<Rightarrow> if c = CHR ''.''
                                      then (takeWhile is_digit r, dropWhile is_digit r)
                                      else ([], r1))
           in if ip = [] \<and> fp = [] then NaN
              else
                let mv = of_nat (digits_value (ip @ fp)) * pow10 (exponent_part r2 - int (length fp))
                in to_number (if neg then - mv else mv))"

subsection \<open>\<open>Number.prototype.toString\<close>, read back by PostgreSQL\<close>

text \<open>
  \<open>toString\<close> prints the decimal with the fewest significant digits that still rounds
  to the number (at most 17 are needed), and PostgreSQL reads that text as an exact
  \<open>numeric\<close>. The two steps are modelled together by the value of the text:
  \<open>shortest_decimal\<close>. \<open>NaN\<close> and the infinities print as \<open>NaN\<close>, \<open>Infinity\<close> and
  \<open>-Infinity\<close>, which \<open>numeric\<close> accepts as special values (PostgreSQL 14 and later for
  the infinities).
\<close>

fun normalise10 :: "nat \<Rightarrow> rat \<Rightarrow> int \<Rightarrow> int" where
  "normalise10 0 x k = k"
| "normalise10 (Suc n) x k =
     (if x < 1 then normalise10 n (10 * x) (k - 1)
      else if 10 \<le> x then normalise10 n (x / 10) (k + 1)
      else k)"

definition round_sig :: "nat \<Rightarrow> rat \<Rightarrow> rat" where
  "round_sig n x =
     (let s = pow10 (int n - 1 - normalise10 400 x 0)
      in of_int (round_half_even (x * s)) / s)"

definition shortest_decimal :: "rat \<Rightarrow> rat" where
  "shortest_decimal x =
     (if x = 0 then 0
      else sgn x * (case find (\<lambda>n. fl (round_sig n \<bar>x\<bar>) = \<bar>x\<bar>) [1..<18] of
                      Some n \<Rightarrow> round_sig n \<bar>x\<bar>
                    | None \<Rightarrow> \<bar>x\<bar>))"

datatype pg_numeric = Numeric rat | NumericNaN | NumericInfinity | NumericNegInfinity

definition toString_numeric :: "number \<Rightarrow> pg_numeric" where
  "toString_numeric x =
     (case x of
        NaN \<Rightarrow> NumericNaN
      | PosInfinity \<Rightarrow> NumericInfinity
      | NegInfinity \<Rightarrow> NumericNegInfinity
      | Finite r \<Rightarrow> Numeric (shortest_decimal r))"

subsection \<open>Integers in template strings\<close>

fun digits :: "nat \<Rightarrow> string" where
  "digits n = (if n < 10 then [''0123456789'' ! n]
               else digits (n div 10) @ [''0123456789'' ! (n mod 10)])"

declare digits.simps [simp del]

definition String_int :: "int \<Rightarrow> string" where
  "String_int i = (if i < 0 then CHR ''-'' # digits (nat (- i)) else digits (nat i))"

section \<open>SQL pattern matching\<close>

text \<open>
  \<open>ILIKE\<close>: \<open>%\<close> matches any run of characters, \<open>_\<close> one character, a backslash
  takes the next character literally; letters are compared without case (ASCII here).
\<close>

definition lower :: "char \<Rightarrow> char" where
  "lower c = (if 65 \<le> (of_char c :: nat) \<and> (of_char c :: nat) \<le> 90
              then char_of ((of_char c :: nat) + 32) else c)"

fun like :: "string \<Rightarrow> string \<Rightarrow> bool" where
  "like [] s = (s = [])"
| "like (p # ps) [] = (p = CHR ''%'' \<and> like ps [])"
| "like (p # ps) (c # cs) =
     (if p = CHR ''%'' then like ps (c # cs) \<or> like (p # ps) cs
      else if p = CHR ''_'' then like ps cs
      else if p = CHR 0x5C then
        (case ps of [] \<Rightarrow> False | q # qs \<Rightarrow> q = c \<and> like qs cs)
      else p = c \<and> like ps cs)"

definition ilike :: "string \<Rightarrow> string \<Rightarrow> bool" where
  "ilike s pattern = like (map lower pattern) (map lower s)"

section \<open>Data model (shared/schema.ts)\<close>

type_synonym timestamp = int

record user =
  user_id :: string
  user_email :: "string option"
  user_firstName :: "string option"
  user_lastName :: "string option"
  user_isAdmin :: "bool option"
  user_createdAt :: "timestamp option"

record university =
  university_id :: int
  university_name :: string

record course =
  course_id :: int
  course_name :: string
  course_universityId :: int
  course_level :: string
  course_ieltsOverall :: pg_numeric
  course_faculty :: string

record application =
  application_id :: int
  application_userId :: string
  application_fullName :: string
  application_email :: string
  application_phone :: string
  application_selectedCourses :: "int list"
  application_additionalNotes :: "string option"
  application_status :: "string option"
  application_createdAt :: "timestamp option"
  application_updatedAt :: "timestamp option"

record notification =
  notification_id :: int
  notification_userId :: string
  notification_title :: string
  notification_message :: string
  notification_isRead :: "bool option"
  notification_type :: "string option"
  notification_createdAt :: "timestamp option"

text \<open>The values of \<open>InsertApplication\<close> and \<open>InsertNotification\<close>.\<close>

record insert_application =
  ia_userId :: string
  ia_fullName :: string
  ia_email :: string
  ia_phone :: string
  ia_selectedCourses :: "int list"
  ia_additionalNotes :: "string option"
  ia_status :: "string option"

record insert_notification =
  in_userId :: string
  in_title :: string
  in_message :: string
  in_type :: "string option"
  in_isRead :: "bool option"

section \<open>The database and the storage layer (DatabaseStorage)\<close>

text \<open>
  Every method of \<open>DatabaseStorage\<close> is one round trip to the database. The world holds
  the tables, the two serial counters, the clock, the sequence of storage calls made so
  far (\<open>trace\<close>) and a schedule of failures: the call number \<open>k\<close> (counted from 0 over
  the life of the world) throws, without touching the tables, when \<open>faults w k\<close> holds.
  A schedule that is false everywhere is a database that answers every call.
\<close>

datatype query =
    Q_getUser string
  | Q_getUsers
  | Q_getUniversities
  | Q_getCourses
  | Q_getCourseById int
  | Q_getAllApplications
  | Q_createApplication string
  | Q_updateApplicationStatus int string
  | Q_createNotification string
  | Q_markNotificationAsRead int

record world =
  users_table :: "user list"
  universities_table :: "university list"
  courses_table :: "course list"
  applications_table :: "application list"
  notifications_table :: "notification list"
  applications_id_seq :: int
  notifications_id_seq :: int
  now :: timestamp
  faults :: "nat \<Rightarrow> bool"
  trace :: "query list"

datatype error = DbError | ZodError

type_synonym 'a io = "world \<Rightarrow> (error + 'a) \<times> world"

definition io_return :: "'a \<Rightarrow> 'a io" where
  "io_return x w = (Inr x, w)"

definition io_bind :: "'a io \<Rightarrow> ('a \<Rightarrow> 'b io) \<Rightarrow> 'b io" where
  "io_bind m f w = (case m w of (Inl e, w') \<Rightarrow> (Inl e, w') | (Inr x, w') \<Rightarrow> f x w')"

definition io_catch :: "'a io \<Rightarrow> (error \<Rightarrow> 'a io) \<Rightarrow> 'a io" where
  "io_catch m h w = (case m w of (Inl e, w') \<Rightarrow> h e w' | (Inr x, w') \<Rightarrow> (Inr x, w'))"

definition round_trip :: "query \<Rightarrow> unit io" where
  "round_trip q w =
     ((if faults w (length (trace w)) then Inl DbError else Inr ()),
      w\<lparr>trace := trace w @ [q]\<rparr>)"

text \<open>
  \<open>ORDER BY created_at DESC\<close>: PostgreSQL puts the NULLs first in a descending order.
  Rows with equal times keep the order of the table.
\<close>

definition desc_createdAt :: "timestamp option \<Rightarrow> int option" where
  "desc_createdAt t = map_option uminus t"

definition getUser :: "string \<Rightarrow> user option io" where
  "getUser uid =
     io_bind (round_trip (Q_getUser uid))
       (\<lambda>_ w. (Inr (find (\<lambda>u. user_id u = uid) (users_table w)), w))"

definition getUsers :: "user list io" where
  "getUsers =
     io_bind (round_trip Q_getUsers)
       (\<lambda>_ w. (Inr (sort_key (\<lambda>u. desc_createdAt (user_createdAt u)) (users_table w)), w))"

definition getUniversities :: "university list io" where
  "getUniversities =
     io_bind (round_trip Q_getUniversities) (\<lambda>_ w. (Inr (universities_table w), w))"

definition getAllApplications :: "application list io" where
  "getAllApplications =
     io_bind (round_trip Q_getAllApplications)
       (\<lambda>_ w. (Inr (sort_key (\<lambda>a. desc_createdAt (application_createdAt a)) (applications_table w)), w))"

text \<open>
  \<open>getCourses\<close> and \<open>getCourseById\<close> left-join each course with its university; the
  university id is a primary key, so at most one row joins.
\<close>

type_synonym course_with_university = "course \<times> university option"

definition leftJoin_universities :: "world \<Rightarrow> course \<Rightarrow> course_with_university" where
  "leftJoin_universities w c =
     (c, find (\<lambda>u. university_id u = course_universityId c) (universities_table w))"

record course_filters =
  search :: "string option"
  faculty :: "string option"
  level :: "string option"
  ieltsScore :: "string option"

text \<open>
  A filter counts when it is a string that JavaScript takes for true: a non-empty one.
  The IELTS condition compares the \<open>numeric(2,1)\<close> column with the text of the parsed
  number; PostgreSQL compares \<open>numeric\<close> values by their value and takes \<open>NaN\<close> for
  equal to \<open>NaN\<close>.
\<close>

definition when_truthy :: "string option \<Rightarrow> (string \<Rightarrow> 'a list) \<Rightarrow> 'a list" where
  "when_truthy s f = (case s of None \<Rightarrow> [] | Some t \<Rightarrow> if t = [] then [] else f t)"

definition conditions :: "course_filters option \<Rightarrow> (course \<Rightarrow> bool) list" where
  "conditions filters =
     (case filters of
        None \<Rightarrow> []
      | Some f \<Rightarrow>
          when_truthy (search f) (\<lambda>s. [\<lambda>c. ilike (course_name c) (''%'' @ s @ ''%'')])
          @ when_truthy (faculty f)
              (\<lambda>s. if s \<noteq> ''All Faculties'' then [\<lambda>c. course_faculty c = s] else [])
          @ when_truthy (level f)
              (\<lambda>s. if s \<noteq> ''All Levels'' then [\<lambda>c. course_level c = s] else [])
          @ when_truthy (ieltsScore f)
              (\<lambda>s. if s \<noteq> ''All IELTS Scores''
                    then (let numericScore = parseFloat s
                          in [\<lambda>c. course_ieltsOverall c = toString_numeric numericScore])
                    else []))"

definition getCourses :: "course_filters option \<Rightarrow> course_with_university list io" where
  "getCourses filters =
     io_bind (round_trip Q_getCourses)
       (\<lambda>_ w. (Inr (map (leftJoin_universities w)
                      (filter (\<lambda>c. list_all (\<lambda>cond. cond c) (conditions filters)) (courses_table w))),
                w))"

definition getCourseById :: "int \<Rightarrow> course_with_university option io" where
  "getCourseById cid =
     io_bind (round_trip (Q_getCourseById cid))
       (\<lambda>_ w. (Inr (map_option (leftJoin_universities w)
                      (find (\<lambda>c. course_id c = cid) (courses_table w))),
                w))"

text \<open>
  The two inserts. \<open>user_id\<close> of both tables references \<open>users.id\<close>: a row for an unknown
  user is refused. The database fills in the serial id, the creation time and the
  defaults of the columns left out.
\<close>

definition createApplication :: "insert_application \<Rightarrow> application io" where
  "createApplication a =
     io_bind (round_trip (Q_createApplication (ia_userId a)))
       (\<lambda>_ w.
          if ia_userId a \<notin> user_id ` set (users_table w) then (Inl DbError, w)
          else
            let created = \<lparr>application_id = applications_id_seq w + 1,
                           application_userId = ia_userId a,
                           application_fullName = ia_fullName a,
                           application_email = ia_email a,
                           application_phone = ia_phone a,
                           application_selectedCourses = ia_selectedCourses a,
                           application_additionalNotes = ia_additionalNotes a,
                           application_status =
                             (case ia_status a of None \<Rightarrow> Some ''submitted'' | Some st \<Rightarrow> Some st),
                           application_createdAt = Some (now w),
                           application_updatedAt = Some (now w)\<rparr>
            in (Inr created,
                w\<lparr>applications_table := applications_table w @ [created],
                  applications_id_seq := applications_id_seq w + 1\<rparr>))"

definition createNotification :: "insert_notification \<Rightarrow> notification io" where
  "createNotification n =
     io_bind (round_trip (Q_createNotification (in_userId n)))
       (\<lambda>_ w.
          if in_userId n \<notin> user_id ` set (users_table w) then (Inl DbError, w)
          else
            let created = \<lparr>notification_id = notifications_id_seq w + 1,
                           notification_userId = in_userId n,
                           notification_title = in_title n,
                           notification_message = in_message n,
                           notification_isRead =
                             (case in_isRead n of None \<Rightarrow> Some False | Some b \<Rightarrow> Some b),
                           notification_type =
                             (case in_type n of None \<Rightarrow> Some ''info'' | Some t \<Rightarrow> Some t),
                           notification_createdAt = Some (now w)\<rparr>
            in (Inr created,
                w\<lparr>notifications_table := notifications_table w @ [created],
                  notifications_id_seq := notifications_id_seq w + 1\<rparr>))"

text \<open>The two updates. \<open>updateApplicationStatus\<close> returns the first row it changed, if any.\<close>

definition updateApplicationStatus :: "int \<Rightarrow> string \<Rightarrow> application option io" where
  "updateApplicationStatus aid st =
     io_bind (round_trip (Q_updateApplicationStatus aid st))
       (\<lambda>_ w.
          let updated = map (\<lambda>a. if application_id a = aid
                                  then a\<lparr>application_status := Some st,
                                         application_updatedAt := Some (now w)\<rparr>
                                  else a) (applications_table w)
          in (Inr (find (\<lambda>a. application_id a = aid) updated), w\<lparr>applications_table := updated\<rparr>))"

definition markNotificationAsRead :: "int \<Rightarrow> unit io" where
  "markNotificationAsRead nid =
     io_bind (round_trip (Q_markNotificationAsRead nid))
       (\<lambda>_ w. (Inr (),
                w\<lparr>notifications_table := map (\<lambda>n. if notification_id n = nid
                                              then n\<lparr>notification_isRead := Some True\<rparr>
                                              else n) (notifications_table w)\<rparr>))"

section \<open>Requests and responses\<close>

text \<open>
  A request body is a JSON object, a finite map from keys to values; the numbers that
  matter here are the course ids, so JSON numbers are the integers.
\<close>

datatype json = JNull | JBool bool | JNum int | JStr string | JArr "json list"

type_synonym jobject = "string \<rightharpoonup> json"

text \<open>
  \<open>insertApplicationSchema\<close> is generated from the \<open>applications\<close> table with \<open>id\<close>,
  \<open>createdAt\<close> and \<open>updatedAt\<close> left out: the \<open>NOT NULL\<close> columns without a default are
  required, the others may be absent or null. Unknown keys are dropped.
\<close>

definition required_string :: "jobject \<Rightarrow> string \<Rightarrow> string option" where
  "required_string obj k = (case obj k of Some (JStr s) \<Rightarrow> Some s | _ \<Rightarrow> None)"

definition optional_string :: "jobject \<Rightarrow> string \<Rightarrow> string option option" where
  "optional_string obj k =
     (case obj k of
        None \<Rightarrow> Some None
      | Some JNull \<Rightarrow> Some None
      | Some (JStr s) \<Rightarrow> Some (Some s)
      | _ \<Rightarrow> None)"

fun integer_array :: "json list \<Rightarrow> int list option" where
  "integer_array [] = Some []"
| "integer_array (JNum i # js) = map_option ((#) i) (integer_array js)"
| "integer_array (_ # js) = None"

definition required_integer_array :: "jobject \<Rightarrow> string \<Rightarrow> int list option" where
  "required_integer_array obj k = (case obj k of Some (JArr js) \<Rightarrow> integer_array js | _ \<Rightarrow> None)"

definition insertApplicationSchema_parse :: "jobject \<Rightarrow> error + insert_application" where
  "insertApplicationSchema_parse obj =
     (case (required_string obj ''userId'', required_string obj ''fullName'',
            required_string obj ''email'', required_string obj ''phone'',
            required_integer_array obj ''selectedCourses'',
            optional_string obj ''additionalNotes'', optional_string obj ''status'') of
        (Some uid, Some fullName, Some email, Some phone, Some selected, Some notes, Some st) \<Rightarrow>
          Inr \<lparr>ia_userId = uid, ia_fullName = fullName, ia_email = email, ia_phone = phone,
               ia_selectedCourses = selected, ia_additionalNotes = notes, ia_status = st\<rparr>
      | _ \<Rightarrow> Inl ZodError)"

record stats =
  totalUsers :: nat
  totalApplications :: nat
  totalCourses :: nat
  totalUniversities :: nat
  newUsersThisWeek :: nat
  newApplicationsThisWeek :: nat
  conversionRate :: int
  finalConversionRate :: "int option"

datatype body =
    Message string
  | Failure string
  | Stats_body stats
  | Users_body "user list"
  | Applications_body "application list"
  | Application_body "application option"
  | Courses_body "course_with_university list"
  | Leads_body
  | Analytics_body "(timestamp option \<times> nat) list" "(timestamp option \<times> nat \<times> string option) list"
  | Success_body
  | Sent_body string "notification list"

datatype response = Response (status_code: nat) (res_body: body)

text \<open>
  Every handler is one \<open>try\<close> block whose \<open>catch\<close> answers 500. What the handler
  wrote to the database before the exception stays written.
\<close>

definition try_catch :: "response io \<Rightarrow> response \<Rightarrow> world \<Rightarrow> response \<times> world" where
  "try_catch m r500 w = (case m w of (Inl e, w') \<Rightarrow> (r500, w') | (Inr r, w') \<Rightarrow> (r, w'))"

definition io_result :: "error + 'a \<Rightarrow> 'a io" where
  "io_result r w = (r, w)"

definition Date_now :: "timestamp io" where
  "Date_now w = (Inr (now w), w)"

text \<open>\<open>!currentUser?.isAdmin\<close>: no such user, or a flag that is null or false.\<close>

definition lacks_admin :: "user option \<Rightarrow> bool" where
  "lacks_admin currentUser =
     (case currentUser of None \<Rightarrow> True | Some u \<Rightarrow> user_isAdmin u \<noteq> Some True)"

text \<open>\<open>!s\<close> on a string that may be missing.\<close>

definition falsy :: "string option \<Rightarrow> bool" where
  "falsy s = (case s of None \<Rightarrow> True | Some t \<Rightarrow> t = [])"

definition string_of :: "string option \<Rightarrow> string" where
  "string_of s = (case s of None \<Rightarrow> [] | Some t \<Rightarrow> t)"

section \<open>The routes (server/routes.ts)\<close>

text \<open>
  The handlers run behind \<open>requireAuth\<close>, which has put the caller's user row in
  \<open>req.user\<close>; \<open>userId\<close> below is \<open>req.user.id\<close>.
\<close>

subsection \<open>GET /api/courses\<close>

definition get_courses :: "course_filters \<Rightarrow> world \<Rightarrow> response \<times> world" where
  "get_courses filters =
     try_catch
       (io_bind (getCourses (Some filters))
          (\<lambda>courses. io_return (Response 200 (Courses_body courses))))
       (Response 500 (Message ''Failed to fetch courses''))"

subsection \<open>POST /api/applications\<close>

definition generic_message :: "int \<Rightarrow> string" where
  "generic_message aid =
     ''Your application #'' @ String_int aid
     @ '' has been submitted. A counsellor will contact you within 6 working hours.''"

definition enhanced_message :: "string \<Rightarrow> string \<Rightarrow> string" where
  "enhanced_message universityName courseName =
     ''Your application to '' @ [CHR 0x22] @ universityName @ [CHR 0x22] @ '' for '' @ courseName
     @ '' has been submitted. A counsellor will contact you within 6 working hours.''"

definition notificationMessage :: "application \<Rightarrow> insert_application \<Rightarrow> string io" where
  "notificationMessage application applicationData =
     (case ia_selectedCourses applicationData of
        [] \<Rightarrow> io_return (generic_message (application_id application))
      | first # _ \<Rightarrow>
          io_catch
            (io_bind (getCourseById first)
               (\<lambda>courseDetails.
                  io_return
                    (case courseDetails of
                       Some (c, Some u) \<Rightarrow> enhanced_message (university_name u) (course_name c)
                     | _ \<Rightarrow> generic_message (application_id application))))
            (\<lambda>courseError. io_return (generic_message (application_id application))))"

definition post_applications :: "string \<Rightarrow> jobject \<Rightarrow> world \<Rightarrow> response \<times> world" where
  "post_applications userId req_body =
     try_catch
       (io_bind
          (io_result (insertApplicationSchema_parse
             (req_body(''userId'' \<mapsto> JStr userId, ''status'' \<mapsto> JStr ''Submitted''))))
          (\<lambda>applicationData.
             io_bind (createApplication applicationData)
               (\<lambda>application.
                  io_bind
                    (io_catch
                       (io_bind (notificationMessage application applicationData)
                          (\<lambda>message.
                             io_bind
                               (createNotification
                                  \<lparr>in_userId = userId,
                                   in_title = ''Application Submitted Successfully'',
                                   in_message = message,
                                   in_type = Some ''application'',
                                   in_isRead = Some False\<rparr>)
                               (\<lambda>_. io_return ())))
                       (\<lambda>notificationError. io_return ()))
                    (\<lambda>_. io_return (Response 200 (Application_body (Some application)))))))
       (Response 500 (Message ''Failed to create application''))"

subsection \<open>PATCH /api/notifications/:id/read\<close>

text \<open>\<open>nid\<close> is \<open>parseInt(req.params.id)\<close>, for a path parameter that is a number.\<close>

definition patch_notification_read :: "string \<Rightarrow> int \<Rightarrow> world \<Rightarrow> response \<times> world" where
  "patch_notification_read userId nid =
     try_catch
       (io_bind (markNotificationAsRead nid) (\<lambda>_. io_return (Response 200 Success_body)))
       (Response 500 (Message ''Failed to mark notification as read''))"

subsection \<open>GET /api/admin-dashboard-stats\<close>

definition get_admin_dashboard_stats :: "string \<Rightarrow> world \<Rightarrow> response \<times> world" where
  "get_admin_dashboard_stats userId =
     try_catch
       (io_bind getUsers (\<lambda>allUsers.
        io_bind getAllApplications (\<lambda>allApplications.
        io_bind (getCourses None) (\<lambda>allCourses.
        io_bind getUniversities (\<lambda>allUniversities.
        io_return (Response 200 (Stats_body
          \<lparr>totalUsers = length allUsers,
           totalApplications = length allApplications,
           totalCourses = length allCourses,
           totalUniversities = length allUniversities,
           newUsersThisWeek = 0,
           newApplicationsThisWeek = 0,
           conversionRate =
             (if length allUsers > 0
              then percentage (length allApplications) (length allUsers) else 0),
           finalConversionRate = None\<rparr>)))))))
       (Response 500 (Failure ''Failed to fetch stats''))"

subsection \<open>GET /api/admin/stats\<close>

text \<open>\<open>Array.from(new Set(xs))\<close>: the distinct elements, in the order of their first occurrence.\<close>

definition Array_from_Set :: "'a list \<Rightarrow> 'a list" where
  "Array_from_Set xs = rev (remdups (rev xs))"

definition thisWeek :: "timestamp \<Rightarrow> timestamp option \<Rightarrow> bool" where
  "thisWeek t createdAt =
     (case createdAt of None \<Rightarrow> False | Some d \<Rightarrow> t - 7 * 24 * 60 * 60 * 1000 < d)"

definition computeStats ::
  "timestamp \<Rightarrow> user list \<Rightarrow> application list \<Rightarrow> course_with_university list
   \<Rightarrow> university list \<Rightarrow> stats" where
  "computeStats t allUsers allApplications allCourses allUniversities =
     (let usersWithApplications = Array_from_Set (map application_userId allApplications);
          usersWithVisaApproved = Array_from_Set (map application_userId
             (filter (\<lambda>app. application_status app = Some ''Visa Approved'') allApplications))
      in \<lparr>totalUsers = length allUsers,
          totalApplications = length allApplications,
          totalCourses = length allCourses,
          totalUniversities = length allUniversities,
          newUsersThisWeek = length (filter (\<lambda>u. thisWeek t (user_createdAt u)) allUsers),
          newApplicationsThisWeek =
            length (filter (\<lambda>a. thisWeek t (application_createdAt a)) allApplications),
          conversionRate =
            (if length allUsers > 0
             then percentage (length usersWithApplications) (length allUsers) else 0),
          finalConversionRate =
            Some (if length usersWithApplications > 0
                  then percentage (length usersWithVisaApproved) (length usersWithApplications)
                  else 0)\<rparr>)"

definition get_admin_stats :: "string \<Rightarrow> world \<Rightarrow> response \<times> world" where
  "get_admin_stats userId =
     try_catch
       (io_bind (getUser userId) (\<lambda>currentUser.
          if lacks_admin currentUser
          then io_return (Response 403 (Message ''Admin access required''))
          else
            io_bind getUsers (\<lambda>allUsers.
            io_bind getAllApplications (\<lambda>allApplications.
            io_bind (getCourses None) (\<lambda>allCourses.
            io_bind getUniversities (\<lambda>allUniversities.
            io_bind Date_now (\<lambda>t.
            io_return (Response 200 (Stats_body
              (computeStats t allUsers allApplications allCourses allUniversities))))))))))
       (Response 500 (Message ''Failed to fetch stats''))"

subsection \<open>GET /api/admin/users, /api/admin/applications, /api/admin/leads, /api/admin/analytics\<close>

definition get_admin_users :: "string \<Rightarrow> world \<Rightarrow> response \<times> world" where
  "get_admin_users userId =
     try_catch
       (io_bind (getUser userId) (\<lambda>currentUser.
          if lacks_admin currentUser
          then io_return (Response 403 (Message ''Admin access required''))
          else io_bind getUsers (\<lambda>users. io_return (Response 200 (Users_body users)))))
       (Response 500 (Message ''Failed to fetch users''))"

definition get_admin_applications :: "string \<Rightarrow> world \<Rightarrow> response \<times> world" where
  "get_admin_applications userId =
     try_catch
       (io_bind (getUser userId) (\<lambda>currentUser.
          if lacks_admin currentUser
          then io_return (Response 403 (Message ''Admin access required''))
          else io_bind getAllApplications
                 (\<lambda>applications. io_return (Response 200 (Applications_body applications)))))
       (Response 500 (Message ''Failed to fetch applications''))"

definition get_admin_leads :: "string \<Rightarrow> world \<Rightarrow> response \<times> world" where
  "get_admin_leads userId =
     try_catch
       (io_bind (getUser userId) (\<lambda>currentUser.
          if lacks_admin currentUser
          then io_return (Response 403 (Message ''Admin access required''))
          else io_return (Response 200 Leads_body)))
       (Response 500 (Message ''Failed to fetch leads''))"

definition get_admin_analytics :: "string \<Rightarrow> world \<Rightarrow> response \<times> world" where
  "get_admin_analytics userId =
     try_catch
       (io_bind (getUser userId) (\<lambda>currentUser.
          if lacks_admin currentUser
          then io_return (Response 403 (Message ''Admin access required''))
          else
            io_bind getUsers (\<lambda>users.
            io_bind getAllApplications (\<lambda>applications.
            io_return (Response 200 (Analytics_body
              (map (\<lambda>u. (user_createdAt u, 1)) users)
              (map (\<lambda>a. (application_createdAt a, 1, application_status a)) applications)))))))
       (Response 500 (Message ''Failed to fetch analytics''))"

subsection \<open>PATCH /api/admin/applications/:id/status\<close>

text \<open>
  \<open>applicationId\<close> is \<open>parseInt(req.params.id)\<close>, \<open>None\<close> standing for \<open>NaN\<close>, which is
  equal to no id; \<open>status\<close> is \<open>req.body.status\<close>. Once an application is found its id is
  \<open>applicationId\<close>, so the update is written with the id of the row.
\<close>

definition courseInfo :: "application \<Rightarrow> course_with_university list \<Rightarrow> university list \<Rightarrow> string" where
  "courseInfo application courses universities =
     (case application_selectedCourses application of
        [] \<Rightarrow> ''your application''
      | first # _ \<Rightarrow>
          (case find (\<lambda>c. course_id (fst c) = first) courses of
             None \<Rightarrow> ''your application''
           | Some course \<Rightarrow>
               course_name (fst course)
               @ (case find (\<lambda>u. university_id u = course_universityId (fst course))
                         universities of
                    Some university \<Rightarrow> '' at '' @ university_name university
                  | None \<Rightarrow> [])))"

definition status_message :: "string \<Rightarrow> string \<Rightarrow> string" where
  "status_message info st =
     ''Your application status for '' @ info @ '' has been updated to: '' @ st"

definition patch_admin_application_status ::
  "string \<Rightarrow> int option \<Rightarrow> string option \<Rightarrow> world \<Rightarrow> response \<times> world" where
  "patch_admin_application_status userId applicationId status =
     try_catch
       (io_bind (getUser userId) (\<lambda>currentUser.
          if lacks_admin currentUser
          then io_return (Response 403 (Message ''Admin access required''))
          else
            (case status of
               None \<Rightarrow> io_return (Response 400 (Message ''Status is required''))
             | Some st \<Rightarrow>
                 if st = [] then io_return (Response 400 (Message ''Status is required''))
                 else
                   io_bind getAllApplications (\<lambda>applications.
                     (case find (\<lambda>app. Some (application_id app) = applicationId) applications of
                        None \<Rightarrow> io_return (Response 404 (Message ''Application not found''))
                      | Some application \<Rightarrow>
                          io_bind (updateApplicationStatus (application_id application) st)
                            (\<lambda>updatedApplication.
                          io_bind (getCourses None) (\<lambda>courses.
                          io_bind getUniversities (\<lambda>universities.
                          io_bind
                            (createNotification
                               \<lparr>in_userId = application_userId application,
                                in_title = ''Application Status Updated'',
                                in_message =
                                  status_message (courseInfo application courses universities) st,
                                in_type = Some ''application'',
                                in_isRead = Some False\<rparr>)
                            (\<lambda>_. io_return (Response 200 (Application_body updatedApplication)))))))))))
       (Response 500 (Message ''Failed to update application status''))"

subsection \<open>POST /api/admin/notifications\<close>

text \<open>The \<open>for\<close> loop over the target users: the first insert that throws ends it.\<close>

fun create_for_each ::
  "string list \<Rightarrow> string \<Rightarrow> string \<Rightarrow> string \<Rightarrow> notification list \<Rightarrow> notification list io" where
  "create_for_each [] ty title message notifications w = (Inr notifications, w)"
| "create_for_each (uid # targetUsers) ty title message notifications w =
     (case createNotification
             \<lparr>in_userId = uid, in_title = title, in_message = message,
              in_type = Some ty, in_isRead = Some False\<rparr> w of
        (Inl e, w') \<Rightarrow> (Inl e, w')
      | (Inr notification, w') \<Rightarrow>
          create_for_each targetUsers ty title message (notifications @ [notification]) w')"

definition sent_message :: "nat \<Rightarrow> string" where
  "sent_message n = ''Notification sent to '' @ String_int (int n) @ '' users''"

definition post_admin_notifications ::
  "string \<Rightarrow> string list option \<Rightarrow> string option \<Rightarrow> string option \<Rightarrow> string option
   \<Rightarrow> world \<Rightarrow> response \<times> world" where
  "post_admin_notifications userId userIds ty title message =
     try_catch
       (io_bind (getUser userId) (\<lambda>currentUser.
          if lacks_admin currentUser
          then io_return (Response 403 (Message ''Admin access required''))
          else if falsy ty \<or> falsy title \<or> falsy message
          then io_return (Response 400 (Message ''Missing required fields: type, title, message''))
          else
            io_bind
              (case userIds of
                 None \<Rightarrow> io_bind getUsers (\<lambda>users. io_return (map user_id users))
               | Some ids \<Rightarrow>
                   if ids = []
                   then io_bind getUsers (\<lambda>users. io_return (map user_id users))
                   else io_return ids)
              (\<lambda>targetUsers.
                 io_bind
                   (create_for_each targetUsers (string_of ty) (string_of title) (string_of message) [])
                   (\<lambda>notifications.
                      io_return (Response 200
                        (Sent_body (sent_message (length notifications)) notifications))))))
       (Response 500 (Message ''Failed to send notification''))"

section \<open>Vocabulary of the properties\<close>

text \<open>\<open>fails w k\<close>: the storage call number \<open>k\<close> of the request that starts in \<open>w\<close> throws.\<close>

definition fails :: "world \<Rightarrow> nat \<Rightarrow> bool" where
  "fails w k = faults w (length (trace w) + k)"

text \<open>The caller's stored user row carries the admin flag.\<close>

definition stored_admin :: "world \<Rightarrow> string \<Rightarrow> bool" where
  "stored_admin w userId = (\<not> lacks_admin (find (\<lambda>u. user_id u = userId) (users_table w)))"

text \<open>A submission is valid when the object the handler builds from it passes the schema.\<close>

definition valid_submission :: "string \<Rightarrow> jobject \<Rightarrow> bool" where
  "valid_submission userId req_body =
     (case insertApplicationSchema_parse
             (req_body(''userId'' \<mapsto> JStr userId, ''status'' \<mapsto> JStr ''Submitted'')) of
        Inl _ \<Rightarrow> False
      | Inr _ \<Rightarrow> True)"

text \<open>
  The submission route looks up the first selected course (storage call 1) before it
  inserts the notification. The lookup misses when there is nothing to look up, when it
  throws, or when it finds no course; the insert is storage call 1 without a lookup and
  storage call 2 after one.
\<close>

definition lookup_misses :: "world \<Rightarrow> int list \<Rightarrow> bool" where
  "lookup_misses w selected =
     (case selected of
        [] \<Rightarrow> True
      | first # _ \<Rightarrow> fails w 1 \<or> find (\<lambda>c. course_id c = first) (courses_table w) = None)"

definition notification_call :: "int list \<Rightarrow> nat" where
  "notification_call selected = (if selected = [] then 1 else 2)"

text \<open>
  The admin routes, each with the request data it reads: the seven registered under
  \<open>/api/admin/\<close> and \<open>/api/admin-dashboard-stats\<close>, the admin statistics endpoint
  registered beside them.
\<close>

datatype admin_route =
    GET_dashboard_stats
  | GET_stats
  | GET_users
  | GET_applications
  | GET_leads
  | GET_analytics
  | PATCH_application_status "int option" "string option"
  | POST_notifications "string list option" "string option" "string option" "string option"

fun admin_handler :: "admin_route \<Rightarrow> string \<Rightarrow> world \<Rightarrow> response \<times> world" where
  "admin_handler GET_dashboard_stats userId = get_admin_dashboard_stats userId"
| "admin_handler GET_stats userId = get_admin_stats userId"
| "admin_handler GET_users userId = get_admin_users userId"
| "admin_handler GET_applications userId = get_admin_applications userId"
| "admin_handler GET_leads userId = get_admin_leads userId"
| "admin_handler GET_analytics userId = get_admin_analytics userId"
| "admin_handler (PATCH_application_status applicationId status) userId =
     patch_admin_application_status userId applicationId status"
| "admin_handler (POST_notifications userIds ty title message) userId =
     post_admin_notifications userId userIds ty title message"

text \<open>
  The percentage as the specification writes it: \<open>round(100 \<times> a / b)\<close> in exact
  arithmetic, a half rounding up, and 0 for an empty denominator.
\<close>

definition spec_rate :: "nat \<Rightarrow> nat \<Rightarrow> int" where
  "spec_rate a b = (if b = 0 then 0 else \<lfloor>100 * (of_nat a :: rat) / of_nat b + 1 / 2\<rfloor>)"

text \<open>The application that the status route finds for the id in the path, if any.\<close>

definition resolve :: "world \<Rightarrow> int option \<Rightarrow> application option" where
  "resolve w applicationId =
     find (\<lambda>app. Some (application_id app) = applicationId)
       (sort_key (\<lambda>a. desc_createdAt (application_createdAt a)) (applications_table w))"

text \<open>What a successful status update leaves in the applications table.\<close>

definition with_status :: "int \<Rightarrow> string \<Rightarrow> timestamp \<Rightarrow> application list \<Rightarrow> application list" where
  "with_status aid st t apps =
     map (\<lambda>a. if application_id a = aid
              then a\<lparr>application_status := Some st, application_updatedAt := Some t\<rparr>
              else a) apps"

text \<open>What marking the id as read leaves in the notifications table.\<close>

definition marked_read :: "int \<Rightarrow> notification list \<Rightarrow> notification list" where
  "marked_read nid ns =
     map (\<lambda>n. if notification_id n = nid then n\<lparr>notification_isRead := Some True\<rparr> else n) ns"

text \<open>
  The values a \<open>numeric(2,1)\<close> column holds: the tenths from \<open>-9.9\<close> to \<open>9.9\<close>, and
  \<open>NaN\<close>.
\<close>

definition storable :: "pg_numeric \<Rightarrow> bool" where
  "storable b =
     (case b of
        Numeric r \<Rightarrow> of_int \<lfloor>r * 10\<rfloor> = r * 10 \<and> \<bar>r * 10\<bar> \<le> 99
      | NumericNaN \<Rightarrow> True
      | NumericInfinity \<Rightarrow> False
      | NumericNegInfinity \<Rightarrow> False)"

text \<open>
  The band as the specification compares it: the stored value read as a JavaScript
  number, to be set against the number that \<open>parseFloat\<close> reads from the parameter.
\<close>

definition Number_of_numeric :: "pg_numeric \<Rightarrow> number" where
  "Number_of_numeric b =
     (case b of
        Numeric r \<Rightarrow> to_number r
      | NumericNaN \<Rightarrow> NaN
      | NumericInfinity \<Rightarrow> PosInfinity
      | NumericNegInfinity \<Rightarrow> NegInfinity)"

subsection \<open>Sample data\<close>

definition sample_user :: "string \<Rightarrow> bool \<Rightarrow> user" where
  "sample_user uid adm =
     \<lparr>user_id = uid, user_email = None, user_firstName = None, user_lastName = None,
      user_isAdmin = Some adm, user_createdAt = Some 0\<rparr>"

definition sample_application :: "int \<Rightarrow> string \<Rightarrow> int list \<Rightarrow> string \<Rightarrow> application" where
  "sample_application aid uid selected st =
     \<lparr>application_id = aid, application_userId = uid, application_fullName = ''A Student'',
      application_email = ''student@example.org'', application_phone = ''+8801700000000'',
      application_selectedCourses = selected, application_additionalNotes = None,
      application_status = Some st, application_createdAt = Some 0,
      application_updatedAt = Some 0\<rparr>"

definition sample_course :: "int \<Rightarrow> string \<Rightarrow> int \<Rightarrow> pg_numeric \<Rightarrow> course" where
  "sample_course cid name uni band =
     \<lparr>course_id = cid, course_name = name, course_universityId = uni,
      course_level = ''Masters'', course_ieltsOverall = band, course_faculty = ''Engineering''\<rparr>"

definition sample_notification :: "int \<Rightarrow> string \<Rightarrow> bool \<Rightarrow> notification" where
  "sample_notification nid uid isRead =
     \<lparr>notification_id = nid, notification_userId = uid, notification_title = ''Welcome'',
      notification_message = ''Hello'', notification_isRead = Some isRead,
      notification_type = Some ''info'', notification_createdAt = Some 0\<rparr>"

definition empty_world :: world where
  "empty_world =
     \<lparr>users_table = [], universities_table = [], courses_table = [], applications_table = [],
      notifications_table = [], applications_id_seq = 0, notifications_id_seq = 0,
      now = 1000, faults = (\<lambda>k. False), trace = []\<rparr>"

definition sample_body :: jobject where
  "sample_body =
     [''fullName'' \<mapsto> JStr ''A Student'', ''email'' \<mapsto> JStr ''student@example.org'',
      ''phone'' \<mapsto> JStr ''+8801700000000'', ''selectedCourses'' \<mapsto> JArr [JNum 7],
      ''status'' \<mapsto> JStr ''Visa Approved'']"

definition sample_insert :: insert_application where
  "sample_insert =
     \<lparr>ia_userId = ''u1'', ia_fullName = ''A Student'', ia_email = ''student@example.org'',
      ia_phone = ''+8801700000000'', ia_selectedCourses = [7], ia_additionalNotes = None,
      ia_status = Some ''Submitted''\<rparr>"

definition status_world :: world where
  "status_world =
     empty_world\<lparr>users_table := [sample_user ''root'' True, sample_user ''u1'' False],
                 applications_table := [sample_application 1 ''u1'' [] ''Submitted''],
                 faults := (\<lambda>k. k = 5)\<rparr>"

definition inbox_world :: world where
  "inbox_world = empty_world\<lparr>users_table := [sample_user ''u1'' False],
                             notifications_table := [sample_notification 1 ''u1'' False]\<rparr>"

definition broadcast_world :: world where
  "broadcast_world =
     empty_world\<lparr>users_table := [sample_user ''root'' True, sample_user ''u1'' False],
                 faults := (\<lambda>k. k = 3)\<rparr>"

text \<open>
  Forty users, the admin \<open>root\<close> and \<open>user-11\<close> to \<open>user-49\<close>; the first twenty-three
  of the latter have one application each.
\<close>

definition member_id :: "nat \<Rightarrow> string" where
  "member_id n = ''user-'' @ digits n"

definition cohort_world :: world where
  "cohort_world =
     empty_world\<lparr>users_table :=
                   sample_user ''root'' True # map (\<lambda>n. sample_user (member_id n) False) [11..<50],
                 applications_table :=
                   map (\<lambda>n. sample_application (int n) (member_id n) [] ''Submitted'') [11..<34]\<rparr>"

text \<open>
  The example of the specification: ten users, four of whom have applied (one of them
  twice), two of those four with an application in status \<open>Visa Approved\<close>.
\<close>

definition example_world :: world where
  "example_world =
     empty_world\<lparr>users_table :=
                   sample_user ''root'' True # map (\<lambda>n. sample_user (member_id n) False) [11..<20],
                 applications_table :=
                   [sample_application 1 ''user-11'' [] ''Visa Approved'',
                    sample_application 2 ''user-12'' [] ''Submitted'',
                    sample_application 3 ''user-13'' [] ''Visa Approved'',
                    sample_application 4 ''user-14'' [] ''Submitted'',
                    sample_application 5 ''user-11'' [] ''Submitted'']\<rparr>"

text \<open>The catalogue of \<open>seedSampleData\<close>: four universities with one course each.\<close>

definition catalog_world :: world where
  "catalog_world =
     empty_world\<lparr>universities_table :=
                   [\<lparr>university_id = 1, university_name = ''University of Oxford''\<rparr>,
                    \<lparr>university_id = 2, university_name = ''University of Cambridge''\<rparr>,
                    \<lparr>university_id = 3, university_name = ''Imperial College London''\<rparr>,
                    \<lparr>university_id = 4, university_name = ''University College London''\<rparr>],
                 courses_table :=
                   [sample_course 1 ''Master of Computer Science'' 1 (Numeric 7),
                    sample_course 2 ''MBA - Master of Business Administration'' 2 (Numeric (15 / 2)),
                    sample_course 3 ''MSc Engineering Management'' 3 (Numeric (13 / 2)),
                    sample_course 4 ''Master of Laws (LLM)'' 4 (Numeric (15 / 2))]\<rparr>"

definition ielts_only :: "string \<Rightarrow> course_filters" where
  "ielts_only s = \<lparr>search = None, faculty = None, level = None, ieltsScore = Some s\<rparr>"

definition visitor_world :: world where
  "visitor_world = empty_world\<lparr>users_table := [sample_user ''u1'' False]\<rparr>"

section \<open>Proofs\<close>

lemmas io_defs = io_return_def io_bind_def io_catch_def try_catch_def io_result_def
  round_trip_def Date_now_def

lemma parse_status:
  "insertApplicationSchema_parse (obj(''status'' \<mapsto> JStr st)) = Inr a \<Longrightarrow> ia_status a = Some st"
  by (auto simp: insertApplicationSchema_parse_def optional_string_def split: option.splits prod.splits)

lemma parse_userId:
  "insertApplicationSchema_parse (obj(''userId'' \<mapsto> JStr u, ''status'' \<mapsto> JStr st)) = Inr a
   \<Longrightarrow> ia_userId a = u"
  by (auto simp: insertApplicationSchema_parse_def required_string_def split: option.splits prod.splits)

section \<open>POST /api/applications: the initial status\<close>

text \<open>
  C2. A valid submission by a known user, whose insert the database accepts, is answered
  200 with the created application; that application is the one row appended to the
  table, and its status is \<open>Submitted\<close> whatever status the request body carried.
\<close>

theorem post_applications_status_Submitted:
  assumes "valid_submission userId req_body"
    and "userId \<in> user_id ` set (users_table w)"
    and "\<not> fails w 0"
  shows "\<exists>app. fst (post_applications userId req_body w) = Response 200 (Application_body (Some app))
     \<and> application_status app = Some ''Submitted''
     \<and> applications_table (snd (post_applications userId req_body w)) = applications_table w @ [app]"
proof -
  from assms(1) obtain a where a: "insertApplicationSchema_parse
             (req_body(''userId'' \<mapsto> JStr userId, ''status'' \<mapsto> JStr ''Submitted'')) = Inr a"
    by (auto simp: valid_submission_def split: sum.splits)
  have st: "ia_status a = Some ''Submitted''" using a by (rule parse_status)
  have u: "ia_userId a = userId" using a by (rule parse_userId)
  show ?thesis
    using assms(2,3) st u
    by (auto simp: post_applications_def a io_defs createApplication_def createNotification_def
          notificationMessage_def getCourseById_def fails_def Let_def
        split: list.splits option.splits sum.splits prod.splits if_splits)
qed

lemma valid_sample_body: "valid_submission ''u1'' sample_body"
  by (simp add: valid_submission_def sample_body_def insertApplicationSchema_parse_def
      required_string_def optional_string_def required_integer_array_def)

theorem post_applications_status_Submitted_witness:
  "valid_submission ''u1'' sample_body
   \<and> sample_body ''status'' = Some (JStr ''Visa Approved'')
   \<and> ''u1'' \<in> user_id ` set (users_table (empty_world\<lparr>users_table := [sample_user ''u1'' False]\<rparr>))
   \<and> \<not> fails (empty_world\<lparr>users_table := [sample_user ''u1'' False]\<rparr>) 0
   \<and> (\<exists>app. fst (post_applications ''u1'' sample_body
                    (empty_world\<lparr>users_table := [sample_user ''u1'' False]\<rparr>))
               = Response 200 (Application_body (Some app))
          \<and> application_status app = Some ''Submitted''
          \<and> applications_table (snd (post_applications ''u1'' sample_body
                    (empty_world\<lparr>users_table := [sample_user ''u1'' False]\<rparr>)))
             = applications_table (empty_world\<lparr>users_table := [sample_user ''u1'' False]\<rparr>) @ [app])"
proof -
  let ?w = "empty_world\<lparr>users_table := [sample_user ''u1'' False]\<rparr>"
  have h1: "valid_submission ''u1'' sample_body" by (rule valid_sample_body)
  have h2: "''u1'' \<in> user_id ` set (users_table ?w)"
    by (simp add: empty_world_def sample_user_def)
  have h3: "\<not> fails ?w 0" by (simp add: fails_def empty_world_def)
  have h4: "sample_body ''status'' = Some (JStr ''Visa Approved'')" by (simp add: sample_body_def)
  from post_applications_status_Submitted[OF h1 h2 h3] h1 h2 h3 h4 show ?thesis by blast
qed

section \<open>POST /api/applications: the notification\<close>

text \<open>
  C4. A valid submission by a known user whose insert succeeds is answered 200 with the
  created application, which is persisted, whatever happens to the notification. The
  notification insert is the storage call number 1 when no course is selected and number
  2 otherwise (the course lookup comes first). If that insert does not fail, exactly one
  notification is appended, for the submitting user; its message is the generic one when
  no course is selected, when the course lookup throws or when it finds no course. If the
  insert fails, no notification is created and the response is still the 200.
\<close>

theorem post_applications_notification:
  assumes "insertApplicationSchema_parse
             (req_body(''userId'' \<mapsto> JStr userId, ''status'' \<mapsto> JStr ''Submitted'')) = Inr a"
    and "userId \<in> user_id ` set (users_table w)"
    and "\<not> fails w 0"
  shows "\<exists>app. fst (post_applications userId req_body w) = Response 200 (Application_body (Some app))
     \<and> applications_table (snd (post_applications userId req_body w)) = applications_table w @ [app]
     \<and> (if fails w (notification_call (ia_selectedCourses a))
         then notifications_table (snd (post_applications userId req_body w)) = notifications_table w
         else \<exists>n. notifications_table (snd (post_applications userId req_body w))
                      = notifications_table w @ [n]
                  \<and> notification_userId n = userId
                  \<and> (lookup_misses w (ia_selectedCourses a)
                      \<longrightarrow> notification_message n = generic_message (application_id app)))"
proof -
  have u: "ia_userId a = userId" using assms(1) by (rule parse_userId)
  show ?thesis
  proof (cases "ia_selectedCourses a")
    case Nil
    then show ?thesis
      using assms(2,3) u
      by (simp add: post_applications_def assms(1) io_defs createApplication_def
            createNotification_def notificationMessage_def fails_def Let_def
            lookup_misses_def notification_call_def)
  next
    case (Cons c cs)
    then show ?thesis
      using assms(2,3) u
      by (auto simp: post_applications_def assms(1) io_defs createApplication_def
            createNotification_def notificationMessage_def getCourseById_def fails_def Let_def
            lookup_misses_def notification_call_def
          split: option.splits)
  qed
qed


lemma parse_sample_body:
  "insertApplicationSchema_parse (sample_body(''userId'' \<mapsto> JStr ''u1'', ''status'' \<mapsto> JStr ''Submitted''))
   = Inr sample_insert"
  by (simp add: sample_body_def sample_insert_def insertApplicationSchema_parse_def
      required_string_def optional_string_def required_integer_array_def)

theorem post_applications_notification_witness:
  "insertApplicationSchema_parse
     (sample_body(''userId'' \<mapsto> JStr ''u1'', ''status'' \<mapsto> JStr ''Submitted'')) = Inr sample_insert
   \<and> ''u1'' \<in> user_id ` set (users_table
         (empty_world\<lparr>users_table := [sample_user ''u1'' False], faults := (\<lambda>k. k = 2)\<rparr>))
   \<and> \<not> fails (empty_world\<lparr>users_table := [sample_user ''u1'' False], faults := (\<lambda>k. k = 2)\<rparr>) 0
   \<and> fails (empty_world\<lparr>users_table := [sample_user ''u1'' False], faults := (\<lambda>k. k = 2)\<rparr>) 2
   \<and> status_code (fst (post_applications ''u1'' sample_body
         (empty_world\<lparr>users_table := [sample_user ''u1'' False], faults := (\<lambda>k. k = 2)\<rparr>))) = 200
   \<and> length (applications_table (snd (post_applications ''u1'' sample_body
         (empty_world\<lparr>users_table := [sample_user ''u1'' False], faults := (\<lambda>k. k = 2)\<rparr>)))) = 1
   \<and> notifications_table (snd (post_applications ''u1'' sample_body
         (empty_world\<lparr>users_table := [sample_user ''u1'' False], faults := (\<lambda>k. k = 2)\<rparr>))) = []"
proof -
  let ?w = "empty_world\<lparr>users_table := [sample_user ''u1'' False], faults := (\<lambda>k. k = 2)\<rparr>"
  have h1: "insertApplicationSchema_parse
     (sample_body(''userId'' \<mapsto> JStr ''u1'', ''status'' \<mapsto> JStr ''Submitted'')) = Inr sample_insert"
    by (rule parse_sample_body)
  have h2: "''u1'' \<in> user_id ` set (users_table ?w)"
    by (simp add: empty_world_def sample_user_def)
  have h3: "\<not> fails ?w 0" by (simp add: fails_def empty_world_def)
  have h4: "fails ?w 2" by (simp add: fails_def empty_world_def)
  have sel: "notification_call (ia_selectedCourses sample_insert) = 2"
    by (simp add: sample_insert_def notification_call_def)
  have e: "applications_table ?w = []" "notifications_table ?w = []"
    by (simp_all add: empty_world_def)
  from post_applications_notification[OF h1 h2 h3] sel h4 e
  have "\<exists>app. fst (post_applications ''u1'' sample_body ?w) = Response 200 (Application_body (Some app))
     \<and> applications_table (snd (post_applications ''u1'' sample_body ?w)) = [app]
     \<and> notifications_table (snd (post_applications ''u1'' sample_body ?w)) = []"
    by simp
  then show ?thesis using h1 h2 h3 h4 by auto
qed

section \<open>The admin routes and a caller without the admin flag\<close>

lemmas admin_handler_defs = get_admin_stats_def get_admin_users_def get_admin_applications_def
  get_admin_leads_def get_admin_analytics_def patch_admin_application_status_def
  post_admin_notifications_def

text \<open>
  The seven routes under \<open>/api/admin/\<close> are guarded. When the stored record of the
  caller lacks the admin flag, each of them makes exactly one storage call, the lookup of
  the caller, and leaves the world otherwise as it was; when that lookup is answered the
  response is the 403.
\<close>

lemma guarded_admin_routes_forbidden:
  assumes "\<not> stored_admin w userId" and "route \<noteq> GET_dashboard_stats"
  shows "snd (admin_handler route userId w) = w\<lparr>trace := trace w @ [Q_getUser userId]\<rparr>
     \<and> (\<not> fails w 0 \<longrightarrow>
          fst (admin_handler route userId w) = Response 403 (Message ''Admin access required''))"
  using assms
  by (cases route)
     (simp_all add: stored_admin_def admin_handler_defs io_defs getUser_def fails_def)

section \<open>PATCH /api/admin/applications/:id/status\<close>

lemma fails_simps:
  "fails w 0 = faults w (length (trace w))"
  "fails w 1 = faults w (Suc (length (trace w)))"
  "fails w (Suc 0) = faults w (Suc (length (trace w)))"
  "fails w 2 = faults w (Suc (Suc (length (trace w))))"
  "fails w 3 = faults w (Suc (Suc (Suc (length (trace w)))))"
  "fails w 4 = faults w (Suc (Suc (Suc (Suc (length (trace w))))))"
  "fails w 5 = faults w (Suc (Suc (Suc (Suc (Suc (length (trace w)))))))"
  by (simp_all add: fails_def eval_nat_numeral)

lemma resolve_None_iff:
  "resolve w applicationId = None
   \<longleftrightarrow> (\<forall>a \<in> set (applications_table w). Some (application_id a) \<noteq> applicationId)"
  by (auto simp: resolve_def find_None_iff)

text \<open>
  C3, as the code has it. For an id that resolves to no application the route changes
  neither the applications nor the notifications, whoever calls and whatever fails. For
  an admin whose lookup is answered, the response is 400 when the body carries no status
  or an empty one (the check precedes the search for the application), and 404 when a
  status is given and the list of applications is answered.
\<close>

theorem updateStatus_unknown_id:
  assumes "resolve w applicationId = None"
  shows "applications_table (snd (patch_admin_application_status userId applicationId status w))
           = applications_table w
     \<and> notifications_table (snd (patch_admin_application_status userId applicationId status w))
           = notifications_table w
     \<and> (stored_admin w userId \<and> \<not> fails w 0 \<and> (falsy status \<or> \<not> fails w 1) \<longrightarrow>
          fst (patch_admin_application_status userId applicationId status w)
            = (if falsy status then Response 400 (Message ''Status is required'')
               else Response 404 (Message ''Application not found'')))"
  using assms
  by (auto simp: patch_admin_application_status_def resolve_def stored_admin_def falsy_def
        io_defs getUser_def getAllApplications_def fails_def
      split: option.splits)

theorem updateStatus_unknown_id_witness:
  "resolve (empty_world\<lparr>users_table := [sample_user ''root'' True]\<rparr>) (Some 999) = None
   \<and> stored_admin (empty_world\<lparr>users_table := [sample_user ''root'' True]\<rparr>) ''root''
   \<and> \<not> fails (empty_world\<lparr>users_table := [sample_user ''root'' True]\<rparr>) 0
   \<and> \<not> fails (empty_world\<lparr>users_table := [sample_user ''root'' True]\<rparr>) 1
   \<and> \<not> falsy (Some ''Visa Approved'')
   \<and> fst (patch_admin_application_status ''root'' (Some 999) (Some ''Visa Approved'')
            (empty_world\<lparr>users_table := [sample_user ''root'' True]\<rparr>))
       = Response 404 (Message ''Application not found'')
   \<and> notifications_table (snd (patch_admin_application_status ''root'' (Some 999)
            (Some ''Visa Approved'') (empty_world\<lparr>users_table := [sample_user ''root'' True]\<rparr>)))
       = []"
proof -
  let ?w = "empty_world\<lparr>users_table := [sample_user ''root'' True]\<rparr>"
  have h1: "resolve ?w (Some 999) = None" by (simp add: resolve_def empty_world_def)
  have h2: "stored_admin ?w ''root''"
    by (simp add: stored_admin_def lacks_admin_def empty_world_def sample_user_def)
  have h3: "\<not> fails ?w 0" "\<not> fails ?w 1" by (simp_all add: fails_def empty_world_def)
  have h4: "\<not> falsy (Some ''Visa Approved'')" by (simp add: falsy_def)
  have e: "notifications_table ?w = []" by (simp add: empty_world_def)
  from updateStatus_unknown_id[OF h1, of "''root''" "Some ''Visa Approved''"] h2 h3 h4 e
  have "fst (patch_admin_application_status ''root'' (Some 999) (Some ''Visa Approved'') ?w)
          = Response 404 (Message ''Application not found'')"
    and "notifications_table (snd (patch_admin_application_status ''root'' (Some 999)
            (Some ''Visa Approved'') ?w)) = []"
    by simp_all
  then show ?thesis using h1 h2 h3 h4 by simp
qed

text \<open>
  C3 as first stated promises Not-Found for every unknown id. An admin who sends no
  status for an unknown id is answered 400.
\<close>

theorem updateStatus_unknown_id_counterexample:
  "applications_table (empty_world\<lparr>users_table := [sample_user ''root'' True]\<rparr>) = []
   \<and> fst (patch_admin_application_status ''root'' (Some 999) None
            (empty_world\<lparr>users_table := [sample_user ''root'' True]\<rparr>))
       = Response 400 (Message ''Status is required'')"
  by (simp add: patch_admin_application_status_def io_defs getUser_def lacks_admin_def
      empty_world_def sample_user_def)

text \<open>
  C10. An admin sends a non-empty status for an existing application. The caller lookup,
  the listing, the update, and the two catalogue reads are answered (storage calls 0 to
  4); the notification insert (call 5) throws, or is refused because the owner is not a
  known user. Then the response is the 500, no notification exists, and the applications
  table holds the new status and update time: nothing is rolled back.
\<close>

theorem updateStatus_not_rolled_back:
  assumes "stored_admin w userId"
    and "st \<noteq> []"
    and "resolve w applicationId = Some application"
    and "\<not> fails w 0" "\<not> fails w 1" "\<not> fails w 2" "\<not> fails w 3" "\<not> fails w 4"
    and "fails w 5 \<or> application_userId application \<notin> user_id ` set (users_table w)"
  shows "fst (patch_admin_application_status userId applicationId (Some st) w)
           = Response 500 (Message ''Failed to update application status'')
     \<and> applications_table (snd (patch_admin_application_status userId applicationId (Some st) w))
           = with_status (application_id application) st (now w) (applications_table w)
     \<and> notifications_table (snd (patch_admin_application_status userId applicationId (Some st) w))
           = notifications_table w"
  using assms
  by (auto simp: patch_admin_application_status_def resolve_def stored_admin_def with_status_def
        io_defs getUser_def getAllApplications_def updateApplicationStatus_def getCourses_def
        getUniversities_def createNotification_def fails_simps Let_def
      split: option.splits)


theorem updateStatus_not_rolled_back_witness:
  "stored_admin status_world ''root''
   \<and> ''Visa Approved'' \<noteq> []
   \<and> resolve status_world (Some 1) = Some (sample_application 1 ''u1'' [] ''Submitted'')
   \<and> \<not> fails status_world 0 \<and> \<not> fails status_world 1 \<and> \<not> fails status_world 2
   \<and> \<not> fails status_world 3 \<and> \<not> fails status_world 4 \<and> fails status_world 5
   \<and> fst (patch_admin_application_status ''root'' (Some 1) (Some ''Visa Approved'') status_world)
       = Response 500 (Message ''Failed to update application status'')
   \<and> map application_status (applications_table
         (snd (patch_admin_application_status ''root'' (Some 1) (Some ''Visa Approved'') status_world)))
       = [Some ''Visa Approved'']
   \<and> map application_updatedAt (applications_table
         (snd (patch_admin_application_status ''root'' (Some 1) (Some ''Visa Approved'') status_world)))
       = [Some 1000]"
proof -
  have h1: "stored_admin status_world ''root''"
    by (simp add: stored_admin_def lacks_admin_def status_world_def empty_world_def sample_user_def)
  have h2: "''Visa Approved'' \<noteq> []" by simp
  have h3: "resolve status_world (Some 1) = Some (sample_application 1 ''u1'' [] ''Submitted'')"
    by (simp add: resolve_def status_world_def empty_world_def sample_application_def)
  have h4: "\<not> fails status_world 0" "\<not> fails status_world 1" "\<not> fails status_world 2"
    "\<not> fails status_world 3" "\<not> fails status_world 4"
    by (simp_all add: fails_def status_world_def empty_world_def)
  have h5: "fails status_world 5" by (simp add: fails_def status_world_def empty_world_def)
  have c: "with_status (application_id (sample_application 1 ''u1'' [] ''Submitted''))
             ''Visa Approved'' (now status_world) (applications_table status_world)
           = [(sample_application 1 ''u1'' [] ''Submitted'')
                \<lparr>application_status := Some ''Visa Approved'', application_updatedAt := Some 1000\<rparr>]"
    by (simp add: with_status_def status_world_def empty_world_def sample_application_def)
  from updateStatus_not_rolled_back[OF h1 h2 h3 h4 disjI1[OF h5]] c
  have "fst (patch_admin_application_status ''root'' (Some 1) (Some ''Visa Approved'') status_world)
          = Response 500 (Message ''Failed to update application status'')"
    and "applications_table
           (snd (patch_admin_application_status ''root'' (Some 1) (Some ''Visa Approved'') status_world))
         = [(sample_application 1 ''u1'' [] ''Submitted'')
                \<lparr>application_status := Some ''Visa Approved'', application_updatedAt := Some 1000\<rparr>]"
    by simp_all
  then show ?thesis using h1 h3 h4 h5 by simp
qed

section \<open>PATCH /api/notifications/:id/read\<close>

lemma marked_read_idem: "marked_read nid (marked_read nid ns) = marked_read nid ns"
  by (induction ns) (simp_all add: marked_read_def)

lemma marked_read_unknown:
  "nid \<notin> notification_id ` set ns \<Longrightarrow> marked_read nid ns = ns"
  by (induction ns) (auto simp: marked_read_def)

lemma marked_read_already:
  "\<forall>n \<in> set ns. notification_id n = nid \<longrightarrow> notification_isRead n = Some True
   \<Longrightarrow> marked_read nid ns = ns"
  by (induction ns) (simp_all add: marked_read_def)

lemma patch_notification_read_table:
  "notifications_table (snd (patch_notification_read userId nid w))
     = (if fails w 0 then notifications_table w else marked_read nid (notifications_table w))"
  by (simp add: patch_notification_read_def markNotificationAsRead_def marked_read_def io_defs
      fails_simps)

lemma patch_notification_read_response:
  "fst (patch_notification_read userId nid w)
     = (if fails w 0 then Response 500 (Message ''Failed to mark notification as read'')
        else Response 200 Success_body)"
  by (simp add: patch_notification_read_def markNotificationAsRead_def io_defs fails_simps)

lemma fails_after_patch_notification_read:
  "fails (snd (patch_notification_read userId nid w)) k = fails w (Suc k)"
  by (simp add: patch_notification_read_def markNotificationAsRead_def io_defs fails_def)

text \<open>
  C5, as the code has it. When the database answers, marking a notification as read is
  answered 200 for every id, known or not: every notification with that id is read
  afterwards and the others are untouched, so an unknown id and an already read
  notification leave the table as it was. A second call changes nothing more and, when
  answered, is a 200 again. No response of the route says Not-Found.
\<close>

theorem markRead_idempotent:
  assumes "\<not> fails w 0"
  shows "fst (patch_notification_read userId nid w) = Response 200 Success_body
     \<and> notifications_table (snd (patch_notification_read userId nid w))
           = marked_read nid (notifications_table w)
     \<and> (nid \<notin> notification_id ` set (notifications_table w) \<longrightarrow>
          notifications_table (snd (patch_notification_read userId nid w)) = notifications_table w)
     \<and> ((\<forall>n \<in> set (notifications_table w).
             notification_id n = nid \<longrightarrow> notification_isRead n = Some True) \<longrightarrow>
          notifications_table (snd (patch_notification_read userId nid w)) = notifications_table w)
     \<and> notifications_table
           (snd (patch_notification_read userId nid (snd (patch_notification_read userId nid w))))
           = notifications_table (snd (patch_notification_read userId nid w))
     \<and> (\<not> fails w 1 \<longrightarrow>
          fst (patch_notification_read userId nid (snd (patch_notification_read userId nid w)))
            = Response 200 Success_body)"
  using assms
  by (simp add: patch_notification_read_table patch_notification_read_response
      fails_after_patch_notification_read marked_read_idem marked_read_unknown marked_read_already)

theorem markRead_idempotent_witness:
  "\<not> fails inbox_world 0 \<and> \<not> fails inbox_world 1
   \<and> map notification_isRead (notifications_table inbox_world) = [Some False]
   \<and> fst (patch_notification_read ''u1'' 1 inbox_world) = Response 200 Success_body
   \<and> map notification_isRead
         (notifications_table (snd (patch_notification_read ''u1'' 1 inbox_world))) = [Some True]
   \<and> fst (patch_notification_read ''u1'' 1 (snd (patch_notification_read ''u1'' 1 inbox_world)))
       = Response 200 Success_body
   \<and> map notification_isRead
         (notifications_table
            (snd (patch_notification_read ''u1'' 1
                    (snd (patch_notification_read ''u1'' 1 inbox_world))))) = [Some True]"
proof -
  have h: "\<not> fails inbox_world 0" "\<not> fails inbox_world 1"
    by (simp_all add: fails_def inbox_world_def empty_world_def)
  have b: "map notification_isRead (notifications_table inbox_world) = [Some False]"
    by (simp add: inbox_world_def empty_world_def sample_notification_def)
  have m: "map notification_isRead (marked_read 1 (notifications_table inbox_world)) = [Some True]"
    by (simp add: marked_read_def inbox_world_def empty_world_def sample_notification_def)
  note t = markRead_idempotent[OF h(1), of "''u1''" 1]
  have r1: "fst (patch_notification_read ''u1'' 1 inbox_world) = Response 200 Success_body"
    using t by blast
  have t1: "notifications_table (snd (patch_notification_read ''u1'' 1 inbox_world))
              = marked_read 1 (notifications_table inbox_world)"
    using t by blast
  have t2: "notifications_table
              (snd (patch_notification_read ''u1'' 1
                      (snd (patch_notification_read ''u1'' 1 inbox_world))))
              = notifications_table (snd (patch_notification_read ''u1'' 1 inbox_world))"
    using t by blast
  have r2: "fst (patch_notification_read ''u1'' 1
                   (snd (patch_notification_read ''u1'' 1 inbox_world)))
              = Response 200 Success_body"
    using t h(2) by blast
  show ?thesis using h b r1 r2 by (simp add: t2 t1 m)
qed

text \<open>
  C5 as first stated promises a Not-Found report for every id that does not exist.
  The table below holds no notification 999, and the route answers 200.
\<close>

theorem markRead_unknown_id_counterexample:
  "999 \<notin> notification_id ` set (notifications_table inbox_world)
   \<and> fst (patch_notification_read ''u1'' 999 inbox_world) = Response 200 Success_body"
  by (simp add: patch_notification_read_def markNotificationAsRead_def io_defs
      inbox_world_def empty_world_def sample_notification_def)

section \<open>POST /api/admin/notifications\<close>

lemma createNotification_ok:
  assumes "uid \<in> user_id ` set (users_table w)" "\<not> fails w 0"
  shows "\<exists>n w'. createNotification
            \<lparr>in_userId = uid, in_title = title, in_message = msg,
             in_type = Some ty, in_isRead = Some False\<rparr> w = (Inr n, w')
         \<and> notification_userId n = uid
         \<and> notifications_table w' = notifications_table w @ [n]
         \<and> users_table w' = users_table w
         \<and> (\<forall>k. fails w' k = fails w (Suc k))"
  using assms
  by (simp add: createNotification_def io_defs fails_def Let_def)

lemma createNotification_fault:
  assumes "fails w 0"
  shows "\<exists>w'. createNotification n w = (Inl DbError, w')
         \<and> notifications_table w' = notifications_table w"
  using assms
  by (simp add: createNotification_def io_defs fails_def Let_def)

lemma create_for_each_ok:
  assumes "set targets \<subseteq> user_id ` set (users_table w)"
    and "\<forall>k < length targets. \<not> fails w k"
  shows "\<exists>ns w'. create_for_each targets ty title msg acc w = (Inr (acc @ ns), w')
         \<and> notifications_table w' = notifications_table w @ ns
         \<and> map notification_userId ns = targets"
  using assms
proof (induction targets arbitrary: acc w)
  case Nil
  then show ?case by simp
next
  case (Cons uid targets)
  from Cons.prems have "uid \<in> user_id ` set (users_table w)" "\<not> fails w 0" by auto
  from createNotification_ok[OF this, of title msg ty]
  obtain n w1 where c: "createNotification
            \<lparr>in_userId = uid, in_title = title, in_message = msg,
             in_type = Some ty, in_isRead = Some False\<rparr> w = (Inr n, w1)"
    and n: "notification_userId n = uid"
    and t: "notifications_table w1 = notifications_table w @ [n]"
    and u: "users_table w1 = users_table w"
    and f: "\<forall>k. fails w1 k = fails w (Suc k)"
    by blast
  have "set targets \<subseteq> user_id ` set (users_table w1)" using Cons.prems(1) u by simp
  moreover have "\<forall>k < length targets. \<not> fails w1 k" using Cons.prems(2) f by auto
  ultimately obtain ns w' where
    r: "create_for_each targets ty title msg (acc @ [n]) w1 = (Inr ((acc @ [n]) @ ns), w')"
    and t': "notifications_table w' = notifications_table w1 @ ns"
    and m: "map notification_userId ns = targets"
    using Cons.IH[of w1 "acc @ [n]"] by blast
  have "create_for_each (uid # targets) ty title msg acc w = (Inr (acc @ (n # ns)), w')"
    using c r by simp
  moreover have "notifications_table w' = notifications_table w @ (n # ns)" using t t' by simp
  moreover have "map notification_userId (n # ns) = uid # targets" using n m by simp
  ultimately show ?case by (intro exI[of _ "n # ns"] exI[of _ w'] conjI)
qed

lemma create_for_each_fault:
  assumes "set targets \<subseteq> user_id ` set (users_table w)"
    and "j < length targets"
    and "\<forall>k < j. \<not> fails w k"
    and "fails w j"
  shows "\<exists>ns w'. create_for_each targets ty title msg acc w = (Inl DbError, w')
         \<and> notifications_table w' = notifications_table w @ ns
         \<and> map notification_userId ns = take j targets"
  using assms
proof (induction targets arbitrary: acc w j)
  case Nil
  then show ?case by simp
next
  case (Cons uid targets)
  show ?case
  proof (cases j)
    case 0
    with Cons.prems(4) have "fails w 0" by simp
    from createNotification_fault[OF this]
    obtain w' where "createNotification
            \<lparr>in_userId = uid, in_title = title, in_message = msg,
             in_type = Some ty, in_isRead = Some False\<rparr> w = (Inl DbError, w')"
      and "notifications_table w' = notifications_table w"
      by blast
    then show ?thesis using 0 by simp
  next
    case (Suc i)
    from Cons.prems Suc have "uid \<in> user_id ` set (users_table w)" "\<not> fails w 0" by auto
    from createNotification_ok[OF this, of title msg ty]
    obtain n w1 where c: "createNotification
            \<lparr>in_userId = uid, in_title = title, in_message = msg,
             in_type = Some ty, in_isRead = Some False\<rparr> w = (Inr n, w1)"
      and n: "notification_userId n = uid"
      and t: "notifications_table w1 = notifications_table w @ [n]"
      and u: "users_table w1 = users_table w"
      and f: "\<forall>k. fails w1 k = fails w (Suc k)"
      by blast
    have "set targets \<subseteq> user_id ` set (users_table w1)" using Cons.prems(1) u by simp
    moreover have "i < length targets" using Cons.prems(2) Suc by simp
    moreover have "\<forall>k < i. \<not> fails w1 k" using Cons.prems(3) f Suc by auto
    moreover have "fails w1 i" using Cons.prems(4) f Suc by simp
    ultimately obtain ns w' where
      r: "create_for_each targets ty title msg (acc @ [n]) w1 = (Inl DbError, w')"
      and t': "notifications_table w' = notifications_table w1 @ ns"
      and m: "map notification_userId ns = take i targets"
      using Cons.IH[of w1 i "acc @ [n]"] by blast
    have "create_for_each (uid # targets) ty title msg acc w = (Inl DbError, w')"
      using c r by simp
    moreover have "notifications_table w' = notifications_table w @ (n # ns)" using t t' by simp
    moreover have "map notification_userId (n # ns) = take j (uid # targets)"
      using n m Suc by simp
    ultimately show ?thesis by (intro exI[of _ "n # ns"] exI[of _ w'] conjI)
  qed
qed


lemma post_admin_notifications_all:
  assumes "stored_admin w userId"
    and "\<not> falsy ty" "\<not> falsy title" "\<not> falsy message"
    and "userIds = None \<or> userIds = Some []"
    and "\<not> fails w 0" "\<not> fails w 1"
  shows "post_admin_notifications userId userIds ty title message w =
     (case create_for_each
             (map user_id (sort_key (\<lambda>u. desc_createdAt (user_createdAt u)) (users_table w)))
             (string_of ty) (string_of title) (string_of message) []
             (w\<lparr>trace := trace w @ [Q_getUser userId, Q_getUsers]\<rparr>) of
        (Inl e, w') \<Rightarrow> (Response 500 (Message ''Failed to send notification''), w')
      | (Inr ns, w') \<Rightarrow> (Response 200 (Sent_body (sent_message (length ns)) ns), w'))"
  using assms
  by (auto simp: post_admin_notifications_def stored_admin_def io_defs getUser_def getUsers_def
        fails_simps split: sum.splits prod.splits)

text \<open>
  C6, as the code has it. An admin broadcasts with all three fields and no user ids, and
  the caller lookup and the user listing are answered (storage calls 0 and 1); the insert
  for the user number \<open>k\<close> of the listing is the storage call \<open>k + 2\<close>. If every insert is
  answered, one notification per known user is appended, in the order of the listing, and
  the response is the 200 whose message counts them. If the insert number \<open>j\<close> is the first
  to throw, the \<open>j\<close> notifications made before it stay in the table and the response is the
  500, which carries no count.
\<close>

theorem broadcast_all_users:
  assumes "stored_admin w userId"
    and "\<not> falsy ty" "\<not> falsy title" "\<not> falsy message"
    and "userIds = None \<or> userIds = Some []"
    and "\<not> fails w 0" "\<not> fails w 1"
  shows "((\<forall>k < length (users_table w). \<not> fails w (k + 2)) \<longrightarrow>
           (\<exists>ns. fst (post_admin_notifications userId userIds ty title message w)
                   = Response 200 (Sent_body (sent_message (length (users_table w))) ns)
               \<and> notifications_table (snd (post_admin_notifications userId userIds ty title message w))
                   = notifications_table w @ ns
               \<and> map notification_userId ns
                   = map user_id (sort_key (\<lambda>u. desc_createdAt (user_createdAt u)) (users_table w))))
     \<and> (\<forall>j < length (users_table w).
           (\<forall>k < j. \<not> fails w (k + 2)) \<and> fails w (j + 2) \<longrightarrow>
           fst (post_admin_notifications userId userIds ty title message w)
             = Response 500 (Message ''Failed to send notification'')
           \<and> (\<exists>ns. notifications_table
                      (snd (post_admin_notifications userId userIds ty title message w))
                      = notifications_table w @ ns
                   \<and> length ns = j))"
proof -
  let ?targets = "map user_id (sort_key (\<lambda>u. desc_createdAt (user_createdAt u)) (users_table w))"
  let ?w2 = "w\<lparr>trace := trace w @ [Q_getUser userId, Q_getUsers]\<rparr>"
  note unfold = post_admin_notifications_all[OF assms]
  have sub: "set ?targets \<subseteq> user_id ` set (users_table ?w2)" by simp
  have len: "length ?targets = length (users_table w)" by simp
  have f: "fails ?w2 k = fails w (k + 2)" for k by (simp add: fails_def)
  have nt: "notifications_table ?w2 = notifications_table w" by simp
  have ok: "\<exists>ns. fst (post_admin_notifications userId userIds ty title message w)
                   = Response 200 (Sent_body (sent_message (length (users_table w))) ns)
               \<and> notifications_table (snd (post_admin_notifications userId userIds ty title message w))
                   = notifications_table w @ ns
               \<and> map notification_userId ns = ?targets"
    if a: "\<forall>k < length (users_table w). \<not> fails w (k + 2)"
  proof -
    have "\<forall>k < length ?targets. \<not> fails ?w2 k" using a f len by simp
    from create_for_each_ok[OF sub this, of "string_of ty" "string_of title" "string_of message" "[]"]
    obtain ns w' where r: "create_for_each ?targets (string_of ty) (string_of title)
                             (string_of message) [] ?w2 = (Inr ns, w')"
      and t: "notifications_table w' = notifications_table ?w2 @ ns"
      and m: "map notification_userId ns = ?targets"
      by auto
    have "length ns = length (users_table w)" using m len by (metis length_map)
    then show ?thesis using r t m nt by (simp add: unfold)
  qed
  have bad: "fst (post_admin_notifications userId userIds ty title message w)
             = Response 500 (Message ''Failed to send notification'')
           \<and> (\<exists>ns. notifications_table
                      (snd (post_admin_notifications userId userIds ty title message w))
                      = notifications_table w @ ns
                   \<and> length ns = j)"
    if j: "j < length (users_table w)" and a: "\<forall>k < j. \<not> fails w (k + 2)" and b: "fails w (j + 2)"
    for j
  proof -
    have j': "j < length ?targets" using j len by simp
    have a': "\<forall>k < j. \<not> fails ?w2 k" using a f by simp
    have b': "fails ?w2 j" using b f by simp
    from create_for_each_fault[OF sub j' a' b', of "string_of ty" "string_of title" "string_of message" "[]"]
    obtain ns w' where r: "create_for_each ?targets (string_of ty) (string_of title)
                             (string_of message) [] ?w2 = (Inl DbError, w')"
      and t: "notifications_table w' = notifications_table ?w2 @ ns"
      and m: "map notification_userId ns = take j ?targets"
      by auto
    have "length (map notification_userId ns) = j" using j' by (simp only: m length_take min_def) simp
    then have "length ns = j" by simp
    then show ?thesis using r t nt by (simp add: unfold)
  qed
  show ?thesis using ok bad by blast
qed


lemma sent_message_2: "sent_message 2 = ''Notification sent to 2 users''"
  by (simp add: sent_message_def String_int_def digits.simps)

theorem broadcast_all_users_witness:
  "stored_admin (broadcast_world\<lparr>faults := (\<lambda>k. False)\<rparr>) ''root''
   \<and> \<not> falsy (Some ''info'') \<and> \<not> falsy (Some ''Hi'') \<and> \<not> falsy (Some ''Hello'')
   \<and> \<not> fails (broadcast_world\<lparr>faults := (\<lambda>k. False)\<rparr>) 0
   \<and> \<not> fails (broadcast_world\<lparr>faults := (\<lambda>k. False)\<rparr>) 1
   \<and> length (users_table (broadcast_world\<lparr>faults := (\<lambda>k. False)\<rparr>)) = 2
   \<and> \<not> fails (broadcast_world\<lparr>faults := (\<lambda>k. False)\<rparr>) 2
   \<and> \<not> fails (broadcast_world\<lparr>faults := (\<lambda>k. False)\<rparr>) 3
   \<and> (\<exists>ns. fst (post_admin_notifications ''root'' None (Some ''info'') (Some ''Hi'') (Some ''Hello'')
                  (broadcast_world\<lparr>faults := (\<lambda>k. False)\<rparr>))
              = Response 200 (Sent_body ''Notification sent to 2 users'' ns)
          \<and> notifications_table
               (snd (post_admin_notifications ''root'' None (Some ''info'') (Some ''Hi'') (Some ''Hello'')
                  (broadcast_world\<lparr>faults := (\<lambda>k. False)\<rparr>))) = ns
          \<and> map notification_userId ns = [''root'', ''u1''])"
proof -
  let ?w = "broadcast_world\<lparr>faults := (\<lambda>k. False)\<rparr>"
  have h1: "stored_admin ?w ''root''"
    by (simp add: stored_admin_def lacks_admin_def broadcast_world_def empty_world_def
        sample_user_def)
  have h2: "\<not> falsy (Some ''info'')" "\<not> falsy (Some ''Hi'')" "\<not> falsy (Some ''Hello'')"
    by (simp_all add: falsy_def)
  have h3: "None = None \<or> None = Some ([] :: string list)" by simp
  have h4: "\<not> fails ?w 0" "\<not> fails ?w 1" by (simp_all add: fails_def)
  have h5: "\<forall>k < length (users_table ?w). \<not> fails ?w (k + 2)" by (simp add: fails_def)
  have e: "length (users_table ?w) = 2" "notifications_table ?w = []"
    "map user_id (sort_key (\<lambda>u. desc_createdAt (user_createdAt u)) (users_table ?w))
       = [''root'', ''u1'']"
    by (simp_all add: broadcast_world_def empty_world_def sample_user_def desc_createdAt_def)
  from broadcast_all_users[OF h1 h2 h3 h4] h5 e
  have "\<exists>ns. fst (post_admin_notifications ''root'' None (Some ''info'') (Some ''Hi'') (Some ''Hello'') ?w)
              = Response 200 (Sent_body ''Notification sent to 2 users'' ns)
          \<and> notifications_table
               (snd (post_admin_notifications ''root'' None (Some ''info'') (Some ''Hi'') (Some ''Hello'') ?w))
             = ns
          \<and> map notification_userId ns = [''root'', ''u1'']"
    by (simp add: sent_message_2)
  moreover have "\<not> fails ?w 2" "\<not> fails ?w 3" by (simp_all add: fails_def)
  ultimately show ?thesis using h1 h2 h4 e(1) by blast
qed

text \<open>
  C6 as first stated promises that the response reports the count of the inserts
  that succeeded, also under partial failure. Below there are two users and the second
  insert throws: one notification is persisted, and the response is the bare 500.
\<close>

theorem broadcast_partial_failure_counterexample:
  "fst (post_admin_notifications ''root'' None (Some ''info'') (Some ''Hi'') (Some ''Hello'')
          broadcast_world)
     = Response 500 (Message ''Failed to send notification'')
   \<and> length (notifications_table
        (snd (post_admin_notifications ''root'' None (Some ''info'') (Some ''Hi'') (Some ''Hello'')
           broadcast_world))) = 1"
  by (simp add: post_admin_notifications_def io_defs getUser_def getUsers_def
      createNotification_def lacks_admin_def falsy_def string_of_def Let_def
      broadcast_world_def empty_world_def sample_user_def desc_createdAt_def)

section \<open>Rounding to a double\<close>

lemma pow2_pos: "0 < pow2 e"
  by (simp add: pow2_def)

lemma pow2_powi: "pow2 e = 2 powi e"
  by (simp add: pow2_def power_int_def field_simps)

lemma pow2_add: "pow2 (a + b) = pow2 a * pow2 b"
  by (simp add: pow2_powi power_int_add)

lemma pow2_mono: "a \<le> b \<Longrightarrow> pow2 a \<le> pow2 b"
  by (simp add: pow2_powi power_int_increasing)

lemma pow2_0: "pow2 0 = 1" and pow2_1: "pow2 1 = 2" and pow2_m1: "pow2 (- 1) = 1 / 2"
  by (simp_all add: pow2_def)

lemma scale_cases:
  fixes y p :: rat
  assumes "2 ^ 52 \<le> y" "y < 2 ^ 53" "0 < p"
  shows "1 \<le> p \<Longrightarrow> 2 ^ 52 \<le> y * p"
    and "p \<le> 1 \<Longrightarrow> y * p < 2 ^ 53"
    and "p \<le> 1 / 2 \<Longrightarrow> y * p < 2 ^ 52"
    and "2 \<le> p \<Longrightarrow> 2 ^ 53 \<le> y * p"
proof -
  have y0: "0 \<le> y" using assms(1) by (rule order_trans[rotated]) simp
  { assume "1 \<le> p"
    from mult_left_mono[OF this y0] have "y \<le> y * p" by simp
    then show "2 ^ 52 \<le> y * p" using assms(1) by linarith }
  { assume "p \<le> 1"
    from mult_left_mono[OF this y0] have "y * p \<le> y" by simp
    then show "y * p < 2 ^ 53" using assms(2) by linarith }
  { assume "p \<le> 1 / 2"
    from mult_left_mono[OF this y0] have "y * p \<le> y / 2" by simp
    then show "y * p < 2 ^ 52" using assms(2) by simp }
  { assume "2 \<le> p"
    from mult_left_mono[OF this y0] have "y * 2 \<le> y * p" .
    moreover have "2 ^ 53 \<le> y * 2" using assms(1) by simp
    ultimately show "2 ^ 53 \<le> y * p" by (rule order_trans[rotated]) }
qed

text \<open>
  \<open>normalise\<close> finds the significand and the exponent: a magnitude \<open>y \<times> 2^d\<close> with
  \<open>y\<close> in \<open>[2^52, 2^53)\<close> comes back as \<open>(y, d)\<close>.
\<close>

lemma normalise_exact:
  "\<lbrakk>2 ^ 52 \<le> y; y < 2 ^ 53; \<bar>d\<bar> \<le> int n; - 1074 \<le> e + d\<rbrakk>
   \<Longrightarrow> normalise n (y * pow2 d) e = (y, e + d)"
proof (induction n arbitrary: e d)
  case 0
  then show ?case by (simp add: pow2_0)
next
  case (Suc n)
  note sc = scale_cases[OF Suc.prems(1,2) pow2_pos[of d]]
  let ?x = "y * pow2 d"
  consider (lo) "?x < 2 ^ 52" | (hi) "2 ^ 53 \<le> ?x" | (mid) "2 ^ 52 \<le> ?x" "?x < 2 ^ 53"
    by linarith
  then show ?case
  proof cases
    case lo
    have "d < 0"
    proof (rule ccontr)
      assume "\<not> d < 0"
      then have "pow2 0 \<le> pow2 d" by (intro pow2_mono) simp
      then have "1 \<le> pow2 d" by (simp add: pow2_0)
      then show False using sc(1) lo by simp
    qed
    have e: "- 1074 < e" using Suc.prems(4) \<open>d < 0\<close> by linarith
    have "pow2 (d + 1) = pow2 d * 2" by (simp add: pow2_add pow2_1)
    then have eq: "2 * ?x = y * pow2 (d + 1)" by simp
    have "normalise n (y * pow2 (d + 1)) (e - 1) = (y, (e - 1) + (d + 1))"
      using Suc.prems \<open>d < 0\<close> by (intro Suc.IH) simp_all
    then show ?thesis using lo e by (simp add: eq)
  next
    case hi
    have "0 < d"
    proof (rule ccontr)
      assume "\<not> 0 < d"
      then have "pow2 d \<le> pow2 0" by (intro pow2_mono) simp
      then have "pow2 d \<le> 1" by (simp add: pow2_0)
      then show False using sc(2) hi by simp
    qed
    have "pow2 (d - 1 + 1) = pow2 (d - 1) * 2" by (simp only: pow2_add pow2_1)
    then have "pow2 d = pow2 (d - 1) * 2" by simp
    then have eq: "?x / 2 = y * pow2 (d - 1)" by simp
    have "normalise n (y * pow2 (d - 1)) (e + 1) = (y, (e + 1) + (d - 1))"
      using Suc.prems \<open>0 < d\<close> by (intro Suc.IH) simp_all
    then show ?thesis using hi by (simp add: eq)
  next
    case mid
    have "d = 0"
    proof (rule ccontr)
      assume "d \<noteq> 0"
      then consider "d \<le> - 1" | "1 \<le> d" by linarith
      then show False
      proof cases
        case 1
        then have "pow2 d \<le> pow2 (- 1)" by (rule pow2_mono)
        then have "pow2 d \<le> 1 / 2" by (simp add: pow2_m1)
        then show False using sc(3) mid by simp
      next
        case 2
        then have "pow2 1 \<le> pow2 d" by (rule pow2_mono)
        then have "2 \<le> pow2 d" by (simp add: pow2_1)
        then show False using sc(4) mid by simp
      qed
    qed
    then show ?thesis using mid by (simp add: pow2_0)
  qed
qed

lemma round_half_even_eq:
  assumes "of_int m - 1 / 2 < y" "y < of_int m + 1 / 2"
  shows "round_half_even y = m"
proof (cases "y < of_int m")
  case True
  have f: "\<lfloor>y\<rfloor> = m - 1" using assms True by (intro floor_unique) simp_all
  show ?thesis using assms True by (simp add: round_half_even_def f Let_def)
next
  case False
  have f: "\<lfloor>y\<rfloor> = m" using assms False by (intro floor_unique) simp_all
  show ?thesis using assms False by (simp add: round_half_even_def f Let_def)
qed

text \<open>
  The way to compute \<open>fl\<close> by hand: write the number as \<open>y \<times> 2^d\<close> with \<open>y\<close> in
  \<open>[2^52, 2^53)\<close>; if \<open>y\<close> is within less than a half of the integer \<open>m\<close>, the double
  is \<open>m \<times> 2^d\<close>.
\<close>

lemma fl_exact:
  assumes "x = y * pow2 d" "2 ^ 52 \<le> y" "y < 2 ^ 53" "\<bar>d\<bar> \<le> 2200" "- 1074 \<le> d"
    and "of_int m - 1 / 2 < y" "y < of_int m + 1 / 2"
  shows "fl x = of_int m * pow2 d"
proof -
  have n: "normalise 2200 (y * pow2 d) 0 = (y, 0 + d)"
    using assms(2-5) by (intro normalise_exact) simp_all
  have r: "round_half_even y = m" using assms(6,7) by (rule round_half_even_eq)
  have "0 < y" using assms(2) by (rule less_le_trans[rotated]) simp
  then have "0 < x" using assms(1) pow2_pos[of d] by simp
  then have s: "x \<noteq> 0" "sgn x = 1" "\<bar>x\<bar> = x" by simp_all
  have "fl x = (let (y', e) = normalise 2200 x 0 in of_int (round_half_even y') * pow2 e)"
    using s by (simp add: fl_def)
  also have "\<dots> = of_int m * pow2 d"
    unfolding assms(1) n using r by simp
  finally show ?thesis .
qed

subsection \<open>Three percentages\<close>

text \<open>
  \<open>23 / 40\<close> is not a double: the nearest one lies below it, and its product with 100
  rounds to the double just below 57.5.
\<close>

lemma fl_23_40: "fl (23 / 40) = 5179139571476070 * pow2 (- 53)"
  using fl_exact[of "23 / 40" "23 / 40 * 2 ^ 53" "- 53" 5179139571476070]
  by (simp add: pow2_def)

lemma fl_23_40_100:
  "fl (5179139571476070 * pow2 (- 53) * 100) = 8092405580431359 * pow2 (- 47)"
  using fl_exact[of "5179139571476070 * pow2 (- 53) * 100" "5179139571476070 * 100 / 2 ^ 6"
      "- 47" 8092405580431359]
  by (simp add: pow2_def)

lemma percentage_23_40: "percentage 23 40 = 57"
  unfolding percentage_def Math_round_def
  by (simp only: of_nat_numeral fl_23_40 fl_23_40_100) (rule floor_unique; simp add: pow2_def)

lemma fl_4_10: "fl (4 / 10) = 7205759403792794 * pow2 (- 54)"
  using fl_exact[of "4 / 10" "4 / 10 * 2 ^ 54" "- 54" 7205759403792794]
  by (simp add: pow2_def)

lemma fl_4_10_100:
  "fl (7205759403792794 * pow2 (- 54) * 100) = 5629499534213120 * pow2 (- 47)"
  using fl_exact[of "7205759403792794 * pow2 (- 54) * 100" "7205759403792794 * 100 / 2 ^ 7"
      "- 47" 5629499534213120]
  by (simp add: pow2_def)

lemma percentage_4_10: "percentage 4 10 = 40"
  unfolding percentage_def Math_round_def
  by (simp only: of_nat_numeral fl_4_10 fl_4_10_100) (rule floor_unique; simp add: pow2_def)

lemma fl_2_4: "fl (2 / 4) = 4503599627370496 * pow2 (- 53)"
  using fl_exact[of "2 / 4" "2 / 4 * 2 ^ 53" "- 53" 4503599627370496]
  by (simp add: pow2_def)

lemma fl_2_4_100:
  "fl (4503599627370496 * pow2 (- 53) * 100) = 7036874417766400 * pow2 (- 47)"
  using fl_exact[of "4503599627370496 * pow2 (- 53) * 100" "4503599627370496 * 100 / 2 ^ 6"
      "- 47" 7036874417766400]
  by (simp add: pow2_def)

lemma percentage_2_4: "percentage 2 4 = 50"
  unfolding percentage_def Math_round_def
  by (simp only: of_nat_numeral fl_2_4 fl_2_4_100) (rule floor_unique; simp add: pow2_def)

lemma percentage_0: "percentage 0 b = 0"
proof -
  have "\<lfloor>(1 / 2 :: rat)\<rfloor> = 0" by (rule floor_unique) simp_all
  then show ?thesis by (simp add: percentage_def Math_round_def fl_def)
qed

lemma spec_rate_23_40: "spec_rate 23 40 = 58"
proof -
  have "\<lfloor>(100 * 23 / 40 + 1 / 2 :: rat)\<rfloor> = 58" by (rule floor_unique) simp_all
  then show ?thesis by (simp add: spec_rate_def)
qed

section \<open>The two statistics routes\<close>

lemma length_Array_from_Set: "length (Array_from_Set xs) = card (set xs)"
  by (simp add: Array_from_Set_def length_remdups_card_conv)

lemma card_image_set: "card (f ` set xs) = length (remdups (map f xs))"
  by (simp add: length_remdups_card_conv)

lemma Array_from_Set_Nil_iff: "Array_from_Set xs = [] \<longleftrightarrow> xs = []"
  by (simp add: Array_from_Set_def)

lemma sort_key_Nil_iff: "sort_key f xs = [] \<longleftrightarrow> xs = []"
  by (metis length_0_conv length_sort)

lemma leftJoin_universities_trace [simp]:
  "leftJoin_universities (w\<lparr>trace := t\<rparr>) = leftJoin_universities w"
  by (rule ext) (simp add: leftJoin_universities_def)

text \<open>What \<open>/api/admin/stats\<close> answers to an admin when the database answers its five calls.\<close>

lemma get_admin_stats_answered:
  assumes "stored_admin w userId"
    and "\<not> fails w 0" "\<not> fails w 1" "\<not> fails w 2" "\<not> fails w 3" "\<not> fails w 4"
  shows "fst (get_admin_stats userId w) =
     Response 200 (Stats_body
       (computeStats (now w)
          (sort_key (\<lambda>u. desc_createdAt (user_createdAt u)) (users_table w))
          (sort_key (\<lambda>a. desc_createdAt (application_createdAt a)) (applications_table w))
          (map (leftJoin_universities w) (courses_table w))
          (universities_table w)))"
  using assms
  by (simp add: get_admin_stats_def stored_admin_def io_defs getUser_def getUsers_def
      getAllApplications_def getCourses_def getUniversities_def conditions_def fails_simps)

text \<open>
  The two rates of \<open>computeStats\<close>: the code's percentage of the distinct applicants among
  the users, and of the distinct applicants with a \<open>Visa Approved\<close> application among
  the distinct applicants.
\<close>

lemma conversionRate_computeStats:
  "conversionRate (computeStats t allUsers allApplications allCourses allUniversities) =
     (if allUsers = [] then 0
      else percentage (card (application_userId ` set allApplications)) (length allUsers))"
  by (simp add: computeStats_def Let_def length_Array_from_Set)

lemma finalConversionRate_computeStats:
  "finalConversionRate (computeStats t allUsers allApplications allCourses allUniversities) =
     Some (if allApplications = [] then 0
           else percentage
                  (card (application_userId `
                     set (filter (\<lambda>a. application_status a = Some ''Visa Approved'')
                            allApplications)))
                  (card (application_userId ` set allApplications)))"
  by (simp add: computeStats_def Let_def length_Array_from_Set Array_from_Set_Nil_iff)

text \<open>What \<open>/api/admin-dashboard-stats\<close> answers to any caller when the database answers.\<close>

lemma get_admin_dashboard_stats_answered:
  assumes "\<not> fails w 0" "\<not> fails w 1" "\<not> fails w 2" "\<not> fails w 3"
  shows "fst (get_admin_dashboard_stats userId w) =
     Response 200 (Stats_body
       \<lparr>totalUsers = length (users_table w),
        totalApplications = length (applications_table w),
        totalCourses = length (courses_table w),
        totalUniversities = length (universities_table w),
        newUsersThisWeek = 0,
        newApplicationsThisWeek = 0,
        conversionRate =
          (if users_table w = [] then 0
           else percentage (length (applications_table w)) (length (users_table w))),
        finalConversionRate = None\<rparr>)"
  using assms
  by (simp add: get_admin_dashboard_stats_def io_defs getUsers_def
      getAllApplications_def getCourses_def getUniversities_def conditions_def fails_simps
      sort_key_Nil_iff)

text \<open>The caller is never looked up there: the four reads are all the route asks for.\<close>

lemma get_admin_dashboard_stats_trace:
  assumes "\<not> fails w 0" "\<not> fails w 1" "\<not> fails w 2" "\<not> fails w 3"
  shows "snd (get_admin_dashboard_stats userId w) =
     w\<lparr>trace := trace w @ [Q_getUsers, Q_getAllApplications, Q_getCourses, Q_getUniversities]\<rparr>"
  using assms
  by (simp add: get_admin_dashboard_stats_def io_defs getUsers_def
      getAllApplications_def getCourses_def getUniversities_def fails_simps)

lemma example_world_counts:
  "length (users_table example_world) = 10"
  "card (application_userId ` set (applications_table example_world)) = 4"
  "card (application_userId `
     {a \<in> set (applications_table example_world). application_status a = Some ''Visa Approved''})
   = 2"
proof -
  show "length (users_table example_world) = 10"
    by (simp add: example_world_def empty_world_def)
  show "card (application_userId ` set (applications_table example_world)) = 4"
    unfolding card_image_set
    by (simp add: example_world_def empty_world_def sample_application_def)
  have "card (application_userId `
     set (filter (\<lambda>a. application_status a = Some ''Visa Approved'')
            (applications_table example_world))) = 2"
    unfolding card_image_set
    by (simp add: example_world_def empty_world_def sample_application_def)
  then show "card (application_userId `
     {a \<in> set (applications_table example_world). application_status a = Some ''Visa Approved''})
   = 2"
    by simp
qed

lemma cohort_world_counts:
  "length (users_table cohort_world) = 40"
  "length (applications_table cohort_world) = 23"
  "card (application_userId ` set (applications_table cohort_world)) = 23"
  unfolding card_image_set
  by (simp_all add: cohort_world_def empty_world_def sample_application_def member_id_def
      digits.simps)

lemma quiet_worlds:
  "fails cohort_world k = False" "fails example_world k = False"
  by (simp_all add: fails_def cohort_world_def example_world_def empty_world_def)

lemma root_is_admin:
  "stored_admin cohort_world ''root''" "stored_admin example_world ''root''"
  by (simp_all add: stored_admin_def lacks_admin_def cohort_world_def example_world_def
      empty_world_def sample_user_def)

text \<open>
  The example of the specification holds: with ten users, four applicants and two of
  them approved, the admin reads a conversion rate of 40 and a final one of 50.
\<close>

lemma get_admin_stats_example:
  "\<exists>s. fst (get_admin_stats ''root'' example_world) = Response 200 (Stats_body s)
       \<and> totalUsers s = 10 \<and> conversionRate s = 40 \<and> finalConversionRate s = Some 50"
proof -
  have ne: "users_table example_world \<noteq> []" "applications_table example_world \<noteq> []"
    by (simp_all add: example_world_def empty_world_def)
  show ?thesis
    by (simp add: get_admin_stats_answered root_is_admin quiet_worlds
        conversionRate_computeStats finalConversionRate_computeStats sort_key_Nil_iff ne
        example_world_counts percentage_4_10 percentage_2_4)
      (simp add: computeStats_def Let_def example_world_counts)
qed

text \<open>
  C1 at forty users of whom twenty-three have applied. The specification's rate is
  \<open>round(100 \<times> 23 / 40) = round(57.5) = 58\<close>; the route computes
  \<open>Math.round((23 / 40) * 100)\<close> in doubles, where the product is
  \<open>57.49999999999999\<close>, and answers 57.
\<close>

theorem get_admin_stats_23_of_40:
  "length (users_table cohort_world) = 40
   \<and> card (application_userId ` set (applications_table cohort_world)) = 23
   \<and> spec_rate 23 40 = 58
   \<and> (\<exists>s. fst (get_admin_stats ''root'' cohort_world) = Response 200 (Stats_body s)
          \<and> totalUsers s = 40 \<and> conversionRate s = 57)"
proof -
  have ne: "users_table cohort_world \<noteq> []"
    by (simp add: cohort_world_def empty_world_def)
  have "\<exists>s. fst (get_admin_stats ''root'' cohort_world) = Response 200 (Stats_body s)
          \<and> totalUsers s = 40 \<and> conversionRate s = 57"
    by (simp add: get_admin_stats_answered root_is_admin quiet_worlds
        conversionRate_computeStats sort_key_Nil_iff ne cohort_world_counts percentage_23_40)
      (simp add: computeStats_def Let_def cohort_world_counts)
  then show ?thesis by (simp add: cohort_world_counts spec_rate_23_40)
qed

text \<open>
  C9 at forty users and twenty-three applications, for a caller without the admin flag.
  The route answers 200 with both weekly counts at 0, and its conversion rate is 57
  where \<open>round(100 \<times> 23 / 40)\<close> is 58: the same double arithmetic as in
  \<open>/api/admin/stats\<close>.
\<close>

theorem get_admin_dashboard_stats_23_of_40:
  "\<not> stored_admin cohort_world ''user-11''
   \<and> length (users_table cohort_world) = 40
   \<and> length (applications_table cohort_world) = 23
   \<and> spec_rate 23 40 = 58
   \<and> (\<exists>s. fst (get_admin_dashboard_stats ''user-11'' cohort_world) = Response 200 (Stats_body s)
          \<and> totalUsers s = 40 \<and> totalApplications s = 23
          \<and> newUsersThisWeek s = 0 \<and> newApplicationsThisWeek s = 0
          \<and> conversionRate s = 57)"
proof -
  have ne: "users_table cohort_world \<noteq> []"
    by (simp add: cohort_world_def empty_world_def)
  have na: "\<not> stored_admin cohort_world ''user-11''"
    by (simp add: stored_admin_def lacks_admin_def cohort_world_def empty_world_def
        sample_user_def member_id_def digits.simps)
  show ?thesis
    by (simp add: get_admin_dashboard_stats_answered quiet_worlds ne na cohort_world_counts
        percentage_23_40 spec_rate_23_40)
qed

section \<open>The admin routes: the statistics endpoint without a guard\<close>

text \<open>
  C7 at \<open>GET /api/admin-dashboard-stats\<close>. The caller \<open>u1\<close> is a stored user without
  the admin flag. The sibling \<open>/api/admin/stats\<close> answers 403; the dashboard route
  never looks the caller up, runs its four listing queries and answers 200 with the
  statistics.
\<close>

theorem admin_dashboard_stats_unguarded:
  "\<not> stored_admin visitor_world ''u1''
   \<and> fst (admin_handler GET_stats ''u1'' visitor_world)
       = Response 403 (Message ''Admin access required'')
   \<and> fst (admin_handler GET_dashboard_stats ''u1'' visitor_world)
       = Response 200 (Stats_body
           \<lparr>totalUsers = 1, totalApplications = 0, totalCourses = 0, totalUniversities = 0,
            newUsersThisWeek = 0, newApplicationsThisWeek = 0, conversionRate = 0,
            finalConversionRate = None\<rparr>)
   \<and> trace (snd (admin_handler GET_dashboard_stats ''u1'' visitor_world))
       = [Q_getUsers, Q_getAllApplications, Q_getCourses, Q_getUniversities]"
proof -
  have na: "\<not> stored_admin visitor_world ''u1''"
    by (simp add: stored_admin_def lacks_admin_def visitor_world_def empty_world_def
        sample_user_def)
  have q: "\<not> fails visitor_world k" for k
    by (simp add: fails_def visitor_world_def empty_world_def)
  have g: "fst (admin_handler GET_stats ''u1'' visitor_world)
             = Response 403 (Message ''Admin access required'')"
    using guarded_admin_routes_forbidden[OF na, of GET_stats] q by simp
  have d: "fst (admin_handler GET_dashboard_stats ''u1'' visitor_world)
       = Response 200 (Stats_body
           \<lparr>totalUsers = 1, totalApplications = 0, totalCourses = 0, totalUniversities = 0,
            newUsersThisWeek = 0, newApplicationsThisWeek = 0, conversionRate = 0,
            finalConversionRate = None\<rparr>)"
    by (simp add: get_admin_dashboard_stats_answered q)
       (simp add: visitor_world_def empty_world_def percentage_0)
  have t: "trace (snd (admin_handler GET_dashboard_stats ''u1'' visitor_world))
       = [Q_getUsers, Q_getAllApplications, Q_getCourses, Q_getUniversities]"
    by (simp add: get_admin_dashboard_stats_trace q) (simp add: visitor_world_def empty_world_def)
  show ?thesis using na g d t by simp
qed

section \<open>GET /api/courses with an IELTS score\<close>

text \<open>
  The query compares the column with the text of the parsed number. The first part shows
  that, on the values a \<open>numeric(2,1)\<close> column holds, this is the comparison of the two
  numbers; the second part is the route.
\<close>

subsection \<open>Doubles and their shortest decimals\<close>

lemma fl_0: "fl 0 = 0"
  by (simp add: fl_def)

lemma fl_minus: "fl (- x) = - fl x"
  by (cases "x = 0") (simp_all add: fl_def split: prod.splits)

lemma fl_dyadic: "\<exists>m e. fl x = of_int m * pow2 e"
proof (cases "x = 0")
  case True
  then have "fl x = of_int 0 * pow2 0" by (simp add: fl_def)
  then show ?thesis by blast
next
  case False
  obtain y e where n: "normalise 2200 \<bar>x\<bar> 0 = (y, e)" by (cases "normalise 2200 \<bar>x\<bar> 0")
  have "sgn x = 1 \<or> sgn x = - 1" using False by (auto simp: sgn_if)
  then have "fl x = of_int (round_half_even y) * pow2 e
           \<or> fl x = of_int (- round_half_even y) * pow2 e"
    using False n by (auto simp: fl_def)
  then show ?thesis by blast
qed

lemma round_half_even_error: "\<bar>of_int (round_half_even y) - y\<bar> \<le> 1 / 2"
proof -
  have "of_int \<lfloor>y\<rfloor> \<le> y" "y < of_int \<lfloor>y\<rfloor> + 1" by linarith+
  then show ?thesis by (auto simp: round_half_even_def Let_def)
qed

lemma fl_normal:
  assumes "x = y * pow2 d" "2 ^ 52 \<le> y" "y < 2 ^ 53" "\<bar>d\<bar> \<le> 2200" "- 1074 \<le> d"
  shows "fl x = of_int (round_half_even y) * pow2 d"
proof -
  have n: "normalise 2200 (y * pow2 d) 0 = (y, 0 + d)"
    using assms(2-5) by (intro normalise_exact) simp_all
  have "0 < y" using assms(2) by (rule less_le_trans[rotated]) simp
  then have "0 < x" using assms(1) pow2_pos[of d] by simp
  then have s: "x \<noteq> 0" "sgn x = 1" "\<bar>x\<bar> = x" by simp_all
  have "fl x = (let (y', e) = normalise 2200 x 0 in of_int (round_half_even y') * pow2 e)"
    using s by (simp add: fl_def)
  also have "\<dots> = of_int (round_half_even y) * pow2 d"
    unfolding assms(1) n by simp
  finally show ?thesis .
qed

text \<open>In the normal range the rounding error is at most half a unit in the last place.\<close>

lemma fl_error:
  assumes "x = y * pow2 d" "2 ^ 52 \<le> y" "y < 2 ^ 53" "\<bar>d\<bar> \<le> 2200" "- 1074 \<le> d"
  shows "\<bar>fl x - x\<bar> \<le> pow2 d / 2"
proof -
  have "fl x - x = (of_int (round_half_even y) - y) * pow2 d"
    unfolding fl_normal[OF assms] by (simp add: assms(1) algebra_simps)
  then have "\<bar>fl x - x\<bar> = \<bar>of_int (round_half_even y) - y\<bar> * pow2 d"
    using pow2_pos[of d] by (simp add: abs_mult)
  also have "\<dots> \<le> 1 / 2 * pow2 d"
    using round_half_even_error[of y] pow2_pos[of d] by (intro mult_right_mono) simp_all
  finally show ?thesis by simp
qed

lemma fl_int_scaled:
  assumes "2 ^ 52 \<le> m" "m < 2 ^ 53" "\<bar>d\<bar> \<le> 2200" "- 1074 \<le> d"
  shows "fl (of_int m * pow2 d) = of_int m * pow2 d"
proof (rule fl_exact[where y = "of_int m"])
  show "(2::rat) ^ 52 \<le> of_int m" using assms(1) by (metis of_int_le_iff of_int_numeral of_int_power)
  show "(of_int m :: rat) < 2 ^ 53" using assms(2) by (metis of_int_less_iff of_int_numeral of_int_power)
qed (use assms in simp_all)

text \<open>The halves up to ten are doubles.\<close>

lemma fl_half:
  assumes "1 \<le> j" "j \<le> 20"
  shows "fl (of_nat j / 2) = of_nat j / 2"
proof -
  consider "j = 1" | "2 \<le> j" "j \<le> 3" | "4 \<le> j" "j \<le> 7" | "8 \<le> j" "j \<le> 15" | "16 \<le> j"
    using assms by linarith
  then show ?thesis
  proof cases
    case 1
    have e: "of_nat j / 2 = of_int (int j * 2 ^ 52) * pow2 (- 53)" by (simp add: pow2_def)
    show ?thesis unfolding e using 1 by (intro fl_int_scaled) simp_all
  next
    case 2
    have e: "of_nat j / 2 = of_int (int j * 2 ^ 51) * pow2 (- 52)" by (simp add: pow2_def)
    show ?thesis unfolding e using 2 by (intro fl_int_scaled) simp_all
  next
    case 3
    have e: "of_nat j / 2 = of_int (int j * 2 ^ 50) * pow2 (- 51)" by (simp add: pow2_def)
    show ?thesis unfolding e using 3 by (intro fl_int_scaled) simp_all
  next
    case 4
    have e: "of_nat j / 2 = of_int (int j * 2 ^ 49) * pow2 (- 50)" by (simp add: pow2_def)
    show ?thesis unfolding e using 4 by (intro fl_int_scaled) simp_all
  next
    case 5
    have e: "of_nat j / 2 = of_int (int j * 2 ^ 48) * pow2 (- 49)" by (simp add: pow2_def)
    show ?thesis unfolding e using 5 assms by (intro fl_int_scaled) simp_all
  qed
qed


text \<open>The tenths up to 9.9 lie within \<open>pow2 (- 50)\<close> of their doubles.\<close>

lemma band_error:
  assumes "1 \<le> k" "k \<le> 99"
  shows "\<bar>fl (of_nat k / 10) - of_nat k / 10\<bar> \<le> pow2 (- 50)"
proof -
  consider "1 \<le> k" "k \<le> 1" | "2 \<le> k" "k \<le> 2" | "3 \<le> k" "k \<le> 4" | "5 \<le> k" "k \<le> 9" | "10 \<le> k" "k \<le> 19" | "20 \<le> k" "k \<le> 39" | "40 \<le> k" "k \<le> 79" | "80 \<le> k" "k \<le> 99"
    using assms by linarith
  then show ?thesis
  proof cases
    case 1
    then have r: "(1::rat) \<le> of_nat k" "of_nat k \<le> (1::rat)" by simp_all
    have "\<bar>fl (q / 10) - q / 10\<bar> \<le> pow2 (- 56) / 2" if "1 \<le> q" "q \<le> 1" for q :: rat
      by (rule fl_error[where y = "q / 10 * 2 ^ 56"]) (use that in \<open>simp_all add: pow2_def\<close>)
    from this[OF r] have "\<bar>fl (of_nat k / 10) - of_nat k / 10\<bar> \<le> pow2 (- 56) / 2" .
    also have "\<dots> \<le> pow2 (- 50)" by (simp add: pow2_def)
    finally show ?thesis .
  next
    case 2
    then have r: "(2::rat) \<le> of_nat k" "of_nat k \<le> (2::rat)" by simp_all
    have "\<bar>fl (q / 10) - q / 10\<bar> \<le> pow2 (- 55) / 2" if "2 \<le> q" "q \<le> 2" for q :: rat
      by (rule fl_error[where y = "q / 10 * 2 ^ 55"]) (use that in \<open>simp_all add: pow2_def\<close>)
    from this[OF r] have "\<bar>fl (of_nat k / 10) - of_nat k / 10\<bar> \<le> pow2 (- 55) / 2" .
    also have "\<dots> \<le> pow2 (- 50)" by (simp add: pow2_def)
    finally show ?thesis .
  next
    case 3
    then have r: "(3::rat) \<le> of_nat k" "of_nat k \<le> (4::rat)" by simp_all
    have "\<bar>fl (q / 10) - q / 10\<bar> \<le> pow2 (- 54) / 2" if "3 \<le> q" "q \<le> 4" for q :: rat
      by (rule fl_error[where y = "q / 10 * 2 ^ 54"]) (use that in \<open>simp_all add: pow2_def\<close>)
    from this[OF r] have "\<bar>fl (of_nat k / 10) - of_nat k / 10\<bar> \<le> pow2 (- 54) / 2" .
    also have "\<dots> \<le> pow2 (- 50)" by (simp add: pow2_def)
    finally show ?thesis .
  next
    case 4
    then have r: "(5::rat) \<le> of_nat k" "of_nat k \<le> (9::rat)" by simp_all
    have "\<bar>fl (q / 10) - q / 10\<bar> \<le> pow2 (- 53) / 2" if "5 \<le> q" "q \<le> 9" for q :: rat
      by (rule fl_error[where y = "q / 10 * 2 ^ 53"]) (use that in \<open>simp_all add: pow2_def\<close>)
    from this[OF r] have "\<bar>fl (of_nat k / 10) - of_nat k / 10\<bar> \<le> pow2 (- 53) / 2" .
    also have "\<dots> \<le> pow2 (- 50)" by (simp add: pow2_def)
    finally show ?thesis .
  next
    case 5
    then have r: "(10::rat) \<le> of_nat k" "of_nat k \<le> (19::rat)" by simp_all
    have "\<bar>fl (q / 10) - q / 10\<bar> \<le> pow2 (- 52) / 2" if "10 \<le> q" "q \<le> 19" for q :: rat
      by (rule fl_error[where y = "q / 10 * 2 ^ 52"]) (use that in \<open>simp_all add: pow2_def\<close>)
    from this[OF r] have "\<bar>fl (of_nat k / 10) - of_nat k / 10\<bar> \<le> pow2 (- 52) / 2" .
    also have "\<dots> \<le> pow2 (- 50)" by (simp add: pow2_def)
    finally show ?thesis .
  next
    case 6
    then have r: "(20::rat) \<le> of_nat k" "of_nat k \<le> (39::rat)" by simp_all
    have "\<bar>fl (q / 10) - q / 10\<bar> \<le> pow2 (- 51) / 2" if "20 \<le> q" "q \<le> 39" for q :: rat
      by (rule fl_error[where y = "q / 10 * 2 ^ 51"]) (use that in \<open>simp_all add: pow2_def\<close>)
    from this[OF r] have "\<bar>fl (of_nat k / 10) - of_nat k / 10\<bar> \<le> pow2 (- 51) / 2" .
    also have "\<dots> \<le> pow2 (- 50)" by (simp add: pow2_def)
    finally show ?thesis .
  next
    case 7
    then have r: "(40::rat) \<le> of_nat k" "of_nat k \<le> (79::rat)" by simp_all
    have "\<bar>fl (q / 10) - q / 10\<bar> \<le> pow2 (- 50) / 2" if "40 \<le> q" "q \<le> 79" for q :: rat
      by (rule fl_error[where y = "q / 10 * 2 ^ 50"]) (use that in \<open>simp_all add: pow2_def\<close>)
    from this[OF r] have "\<bar>fl (of_nat k / 10) - of_nat k / 10\<bar> \<le> pow2 (- 50) / 2" .
    also have "\<dots> \<le> pow2 (- 50)" by (simp add: pow2_def)
    finally show ?thesis .
  next
    case 8
    then have r: "(80::rat) \<le> of_nat k" "of_nat k \<le> (99::rat)" by simp_all
    have "\<bar>fl (q / 10) - q / 10\<bar> \<le> pow2 (- 49) / 2" if "80 \<le> q" "q \<le> 99" for q :: rat
      by (rule fl_error[where y = "q / 10 * 2 ^ 49"]) (use that in \<open>simp_all add: pow2_def\<close>)
    from this[OF r] have "\<bar>fl (of_nat k / 10) - of_nat k / 10\<bar> \<le> pow2 (- 49) / 2" .
    also have "\<dots> \<le> pow2 (- 50)" by (simp add: pow2_def)
    finally show ?thesis .
  qed
qed

lemma band_bounds:
  assumes "1 \<le> k" "k \<le> 99"
  shows "of_nat k / 10 - 1 / 2 ^ 50 \<le> fl (of_nat k / 10)"
    and "fl (of_nat k / 10) \<le> of_nat k / 10 + 1 / 2 ^ 50"
proof -
  have p: "pow2 (- 50) = 1 / 2 ^ 50" by (simp add: pow2_def)
  have "\<bar>fl (of_nat k / 10) - of_nat k / 10\<bar> \<le> 1 / 2 ^ 50"
    using band_error[OF assms] unfolding p .
  then show "of_nat k / 10 - 1 / 2 ^ 50 \<le> fl (of_nat k / 10)"
    and "fl (of_nat k / 10) \<le> of_nat k / 10 + 1 / 2 ^ 50"
    by linarith+
qed

lemma fl_1_10: "fl (1 / 10) = 7205759403792794 * pow2 (- 56)"
  using fl_exact[of "1 / 10" "1 / 10 * 2 ^ 56" "- 56" 7205759403792794]
  by (simp add: pow2_def)


text \<open>The digits of \<open>toString\<close> for a number between a tenth and ten.\<close>

lemma shortest_decimal_minus: "shortest_decimal (- x) = - shortest_decimal x"
  by (simp add: shortest_decimal_def cong: option.case_cong)

lemma normalise10_unit: "1 \<le> x \<Longrightarrow> x < 10 \<Longrightarrow> normalise10 n x k = k"
  by (cases n) simp_all

lemma normalise10_tenth:
  assumes "1 / 10 \<le> x" "x < 1"
  shows "normalise10 400 x 0 = - 1"
proof -
  have "normalise10 (Suc (Suc n)) x 0 = - 1" for n using assms by simp
  from this[of 398] show ?thesis by simp
qed

lemma round_sig_unit_1:
  "1 \<le> x \<Longrightarrow> x < 10 \<Longrightarrow> round_sig (Suc 0) x = of_int (round_half_even x)"
  by (simp add: round_sig_def normalise10_unit pow10_def)

lemma round_sig_unit_2:
  "1 \<le> x \<Longrightarrow> x < 10 \<Longrightarrow> round_sig 2 x = of_int (round_half_even (x * 10)) / 10"
  by (simp add: round_sig_def normalise10_unit pow10_def)

lemma round_sig_tenth_1:
  "1 / 10 \<le> x \<Longrightarrow> x < 1 \<Longrightarrow> round_sig (Suc 0) x = of_int (round_half_even (x * 10)) / 10"
  by (simp add: round_sig_def normalise10_tenth pow10_def)

lemma shortest_decimal_1:
  assumes "0 < x" "fl (round_sig (Suc 0) x) = x"
  shows "shortest_decimal x = round_sig (Suc 0) x"
proof -
  have "[1..<18] = Suc 0 # [2..<18]" by (simp add: upt_conv_Cons)
  then have "find (\<lambda>n. fl (round_sig n x) = x) [1..<18] = Some (Suc 0)"
    using assms(2) by simp
  then show ?thesis using assms(1) by (simp add: shortest_decimal_def)
qed

lemma shortest_decimal_2:
  assumes "0 < x" "fl (round_sig (Suc 0) x) \<noteq> x" "fl (round_sig 2 x) = x"
  shows "shortest_decimal x = round_sig 2 x"
proof -
  have "[1..<18] = Suc 0 # 2 # [3..<18]" by (simp add: upt_conv_Cons)
  then have "find (\<lambda>n. fl (round_sig n x) = x) [1..<18] = Some 2"
    using assms(2,3) by simp
  then show ?thesis using assms(1) by (simp add: shortest_decimal_def)
qed

lemma round_half_even_band:
  assumes "1 \<le> k" "k \<le> 99"
  shows "round_half_even (fl (of_nat k / 10) * 10) = int k"
proof (rule round_half_even_eq)
  note b = band_bounds[OF assms]
  show "of_int (int k) - 1 / 2 < fl (of_nat k / 10) * 10" using b(1) by simp
  show "fl (of_nat k / 10) * 10 < of_int (int k) + 1 / 2" using b(2) by simp
qed

lemma round_half_even_int: "round_half_even (of_int m) = m"
  by (rule round_half_even_eq) simp_all

lemma fl_of_nat:
  assumes "j \<le> 10"
  shows "fl (of_nat j) = of_nat j"
proof (cases "j = 0")
  case True
  then show ?thesis by (simp add: fl_0)
next
  case False
  then have "fl (of_nat (2 * j) / 2) = of_nat (2 * j) / 2" using assms by (intro fl_half) simp_all
  then show ?thesis by simp
qed


lemma round_half_even_range:
  assumes "1 \<le> x" "x < 10"
  shows "1 \<le> round_half_even x" "round_half_even x \<le> 10"
proof -
  have "1 \<le> \<lfloor>x\<rfloor>" "\<lfloor>x\<rfloor> < 10" using assms by (simp_all add: le_floor_iff floor_less_iff)
  then show "1 \<le> round_half_even x" "round_half_even x \<le> 10"
    by (auto simp: round_half_even_def Let_def)
qed

text \<open>
  The text of a band that went through a double is the band: \<open>(0.7).toString()\<close> is
  \<open>0.7\<close>, \<open>(6.5).toString()\<close> is \<open>6.5\<close>, \<open>(7).toString()\<close> is \<open>7\<close>.
\<close>

lemma shortest_decimal_band_small:
  assumes "1 \<le> k" "k \<le> 9"
  shows "shortest_decimal (fl (of_nat k / 10)) = of_nat k / 10"
proof -
  let ?q = "of_nat k / 10 :: rat"
  let ?x = "fl (of_nat k / 10)"
  have k: "1 \<le> k" "k \<le> 99" using assms by simp_all
  note b = band_bounds[OF k]
  have lo: "1 / 10 \<le> ?x"
  proof (cases "k = 1")
    case True
    have "1 / 10 \<le> fl (1 / 10)" by (simp add: fl_1_10 pow2_def)
    then show ?thesis using True by simp
  next
    case False
    then have "(2::rat) \<le> of_nat k" using assms by simp
    then show ?thesis using b(1) by simp
  qed
  have "of_nat k \<le> (9::rat)" using assms by simp
  then have hi: "?x < 1" using b(2) by simp
  have pos: "0 < ?x" using lo by simp
  have r1: "round_sig (Suc 0) ?x = ?q"
    by (simp add: round_sig_tenth_1[OF lo hi] round_half_even_band[OF k])
  have "fl (round_sig (Suc 0) ?x) = ?x" unfolding r1 ..
  from shortest_decimal_1[OF pos this] show ?thesis unfolding r1 .
qed


lemma shortest_decimal_of_nat:
  assumes "1 \<le> j" "j \<le> 9"
  shows "shortest_decimal (of_nat j) = of_nat j"
proof -
  have lo: "(1::rat) \<le> of_nat j" and hi: "of_nat j < (10::rat)" using assms by simp_all
  have "round_half_even (of_int (int j)) = int j" by (rule round_half_even_int)
  then have "round_half_even (of_nat j) = int j" by simp
  then have r1: "round_sig (Suc 0) (of_nat j) = of_nat j"
    by (simp add: round_sig_unit_1[OF lo hi])
  have pos: "(0::rat) < of_nat j" using lo by simp
  have "fl (of_nat j) = of_nat j" using assms by (intro fl_of_nat) simp
  then have "fl (round_sig (Suc 0) (of_nat j)) = of_nat j" unfolding r1 .
  from shortest_decimal_1[OF pos this] show ?thesis unfolding r1 .
qed


lemma shortest_decimal_band_frac:
  assumes "11 \<le> k" "k \<le> 99" "k mod 10 \<noteq> 0"
  shows "shortest_decimal (fl (of_nat k / 10)) = of_nat k / 10"
proof -
  let ?q = "of_nat k / 10 :: rat"
  let ?x = "fl (of_nat k / 10)"
  have k: "1 \<le> k" "k \<le> 99" using assms by simp_all
  note b = band_bounds[OF k]
  have "(11::rat) \<le> of_nat k" using assms(1) by simp
  then have lo: "1 \<le> ?x" using b(1) by simp
  have "of_nat k \<le> (99::rat)" using assms(2) by simp
  then have hi: "?x < 10" using b(2) by simp
  have pos: "0 < ?x" using lo by simp
  have r2: "round_sig 2 ?x = ?q"
    by (simp add: round_sig_unit_2[OF lo hi] round_half_even_band[OF k])
  define j where "j = round_half_even ?x"
  have r1: "round_sig (Suc 0) ?x = of_int j" by (simp add: round_sig_unit_1[OF lo hi] j_def)
  have jr: "1 \<le> j" "j \<le> 10" using round_half_even_range[OF lo hi] by (simp_all add: j_def)
  have "fl (of_nat (nat j)) = of_nat (nat j)" using jr by (intro fl_of_nat) simp
  then have fj: "fl (of_int j) = of_int j" using jr by simp
  have ne: "of_int j \<noteq> ?x"
  proof
    assume e: "of_int j = ?x"
    have "\<bar>of_int j - ?q\<bar> \<le> 1 / 2 ^ 50" using b unfolding e[symmetric] by linarith
    then have "of_int j - ?q \<le> 1 / 2 ^ 50" "- (1 / 2 ^ 50) \<le> of_int j - ?q" by linarith+
    then have "of_int j * 10 - of_nat k < (1::rat)" "- 1 < (of_int j * 10 - of_nat k :: rat)"
      by simp_all
    then have "\<bar>of_int j * 10 - of_nat k :: rat\<bar> < 1" by linarith
    then have "\<bar>of_int (j * 10 - int k) :: rat\<bar> < of_int 1" by simp
    then have "\<bar>j * 10 - int k\<bar> < 1" by (simp only: of_int_abs[symmetric] of_int_less_iff)
    then have "int k = 10 * j" by simp
    then have "int k mod 10 = 0" by simp
    then show False using assms(3) by presburger
  qed
  have n1: "fl (round_sig (Suc 0) ?x) \<noteq> ?x" unfolding r1 fj by (rule ne)
  have n2: "fl (round_sig 2 ?x) = ?x" unfolding r2 ..
  from shortest_decimal_2[OF pos n1 n2] show ?thesis unfolding r2 .
qed


lemma shortest_decimal_band_nat:
  assumes "k \<le> 99"
  shows "shortest_decimal (fl (of_nat k / 10)) = of_nat k / 10"
proof -
  have "k = 0 \<or> (1 \<le> k \<and> k \<le> 9) \<or> (10 \<le> k \<and> k mod 10 = 0)
         \<or> (11 \<le> k \<and> k mod 10 \<noteq> 0)"
    by presburger
  then consider (zero) "k = 0" | (small) "1 \<le> k" "k \<le> 9"
    | (round) "10 \<le> k" "k mod 10 = 0" | (frac) "11 \<le> k" "k mod 10 \<noteq> 0"
    by auto
  then show ?thesis
  proof cases
    case zero
    then show ?thesis by (simp add: fl_0 shortest_decimal_def)
  next
    case small
    then show ?thesis by (rule shortest_decimal_band_small)
  next
    case round
    define j where "j = k div 10"
    have j: "1 \<le> j" "j \<le> 9" "k = 10 * j" using round assms unfolding j_def by presburger+
    have q: "(of_nat k / 10 :: rat) = of_nat j" by (simp add: j(3))
    have "fl (of_nat j) = of_nat j" using j(2) by (intro fl_of_nat) simp
    then show ?thesis unfolding q using shortest_decimal_of_nat[OF j(1,2)] by simp
  next
    case frac
    then show ?thesis using assms by (intro shortest_decimal_band_frac)
  qed
qed

lemma fl_band_nat_bound:
  assumes "k \<le> 99"
  shows "\<bar>fl (of_nat k / 10)\<bar> \<le> 10"
proof (cases "k = 0")
  case True
  then show ?thesis by (simp add: fl_0)
next
  case False
  then have k: "1 \<le> k" "k \<le> 99" using assms by simp_all
  note b = band_bounds[OF k]
  have "(1::rat) \<le> of_nat k" "of_nat k \<le> (99::rat)" using k by simp_all
  then have "0 \<le> fl (of_nat k / 10)" "fl (of_nat k / 10) \<le> 10" using b by simp_all
  then show ?thesis by simp
qed

text \<open>The values of the column, by their tenths.\<close>

lemma storable_cases:
  assumes "storable (Numeric r)"
  obtains (pos) k where "k \<le> 99" "r = of_nat k / 10"
        | (neg) k where "k \<le> 99" "r = - (of_nat k / 10)"
proof -
  define z where "z = \<lfloor>r * 10\<rfloor>"
  have s: "of_int \<lfloor>r * 10\<rfloor> = r * 10 \<and> \<bar>r * 10\<bar> \<le> 99"
    using assms by (simp only: storable_def pg_numeric.case)
  then have z1: "of_int z = r * 10" unfolding z_def by (rule conjunct1)
  have z: "of_int z = r * 10" "\<bar>of_int z :: rat\<bar> \<le> 99"
    using s z1 by (simp_all only:)
  from z(2) have "of_int \<bar>z\<bar> \<le> (of_int 99 :: rat)" by simp
  then have zb: "\<bar>z\<bar> \<le> 99" by (simp only: of_int_le_iff)
  have r: "r = of_int z / 10" using z(1) by simp
  show thesis
  proof (cases "0 \<le> z")
    case True
    have "nat z \<le> 99" using zb True by simp
    moreover have "r = of_nat (nat z) / 10" using r True by simp
    ultimately show thesis by (rule pos)
  next
    case False
    have "nat (- z) \<le> 99" using zb False by simp
    moreover have "r = - (of_nat (nat (- z)) / 10)" using r False by simp
    ultimately show thesis by (rule neg)
  qed
qed

lemma shortest_decimal_storable:
  assumes "storable (Numeric r)"
  shows "shortest_decimal (fl r) = r"
  using assms
proof (cases r rule: storable_cases)
  case (pos k)
  show ?thesis unfolding pos(2) using pos(1) by (rule shortest_decimal_band_nat)
next
  case (neg k)
  show ?thesis unfolding neg(2)
    by (simp add: fl_minus shortest_decimal_minus shortest_decimal_band_nat[OF neg(1)])
qed

lemma to_number_storable:
  assumes "storable (Numeric r)"
  shows "to_number r = Finite (fl r)"
proof -
  have "\<bar>fl r\<bar> \<le> 10"
    using assms
  proof (cases r rule: storable_cases)
    case (pos k)
    show ?thesis unfolding pos(2) using pos(1) by (rule fl_band_nat_bound)
  next
    case (neg k)
    show ?thesis unfolding neg(2) using fl_band_nat_bound[OF neg(1)] by (simp add: fl_minus)
  qed
  moreover have "(10::rat) < 2 ^ 1024" by simp
  ultimately have "\<not> 2 ^ 1024 \<le> \<bar>fl r\<bar>" by linarith
  then show ?thesis by (simp add: to_number_def Let_def)
qed


text \<open>
  The other direction: a double whose text is a value of the column is the double of
  that value. Either some number of digits prints the double, and the text rounds back
  to it; or the double itself is the value, and then it is a half.
\<close>

lemma dvd_mult_power_2:
  fixes a :: int
  shows "5 dvd a * 2 ^ n \<Longrightarrow> 5 dvd a"
proof (induction n)
  case 0
  then show ?case by simp
next
  case (Suc n)
  then have "5 dvd (a * 2 ^ n) * 2" by (simp add: ac_simps)
  then have "5 dvd a * 2 ^ n" by presburger
  then show ?case by (rule Suc.IH)
qed

lemma dyadic_tenth:
  assumes "of_int m * pow2 e = (of_nat k / 10 :: rat)"
  shows "5 dvd k"
proof (cases "0 \<le> e")
  case True
  then have "of_int m * 2 ^ nat e * 10 = (of_nat k :: rat)" using assms by (simp add: pow2_def)
  then have "(of_int (m * 2 ^ nat e * 10) :: rat) = of_int (int k)" by simp
  then have "m * 2 ^ nat e * 10 = int k" by (simp only: of_int_eq_iff)
  then have "5 dvd int k" by (metis dvd_triv_right mult.assoc dvd_mult numeral_Bit0 dvd_def mult.commute mult_2)
  then show ?thesis by presburger
next
  case False
  then have "of_int m * 10 = (of_nat k * 2 ^ nat (- e) :: rat)"
    using assms by (simp add: pow2_def field_simps)
  then have "(of_int (m * 10) :: rat) = of_int (int k * 2 ^ nat (- e))" by simp
  then have "m * 10 = int k * 2 ^ nat (- e)" by (simp only: of_int_eq_iff)
  then have "5 dvd int k * 2 ^ nat (- e)" by (metis dvd_triv_right mult.assoc dvd_mult numeral_Bit0 dvd_def mult.commute mult_2)
  then have "5 dvd int k" by (rule dvd_mult_power_2)
  then show ?thesis by presburger
qed

lemma fl_dyadic_band_nat:
  assumes "k \<le> 99" "of_int m * pow2 e = (of_nat k / 10 :: rat)"
  shows "fl (of_nat k / 10) = of_nat k / 10"
proof (cases "k = 0")
  case True
  then show ?thesis by (simp add: fl_0)
next
  case False
  from dyadic_tenth[OF assms(2)] obtain j where j: "k = 5 * j" by (auto simp: dvd_def)
  have "1 \<le> j" "j \<le> 20" using j False assms(1) by simp_all
  then have "fl (of_nat j / 2) = of_nat j / 2" by (rule fl_half)
  moreover have "(of_nat k / 10 :: rat) = of_nat j / 2" by (simp add: j)
  ultimately show ?thesis by simp
qed

lemma fl_dyadic_storable:
  assumes "storable (Numeric r)" "r = of_int m * pow2 e"
  shows "fl r = r"
  using assms(1)
proof (cases r rule: storable_cases)
  case (pos k)
  have "of_int m * pow2 e = (of_nat k / 10 :: rat)" using assms(2) pos(2) by simp
  from fl_dyadic_band_nat[OF pos(1) this] show ?thesis unfolding pos(2) .
next
  case (neg k)
  have "of_int (- m) * pow2 e = (of_nat k / 10 :: rat)" using assms(2) neg(2) by simp
  from fl_dyadic_band_nat[OF neg(1) this] show ?thesis unfolding neg(2) by (simp add: fl_minus)
qed

lemma fl_shortest_decimal:
  assumes "storable (Numeric (shortest_decimal (fl u)))"
  shows "fl (shortest_decimal (fl u)) = fl u"
proof (cases "fl u = 0")
  case True
  then show ?thesis by (simp add: shortest_decimal_def fl_0)
next
  case False
  let ?x = "fl u"
  have sg: "sgn ?x = 1 \<or> sgn ?x = - 1" using False by (auto simp: sgn_if)
  show ?thesis
  proof (cases "find (\<lambda>n. fl (round_sig n \<bar>?x\<bar>) = \<bar>?x\<bar>) [1..<18]")
    case None
    then have sd: "shortest_decimal ?x = ?x"
      using False by (simp add: shortest_decimal_def sgn_mult_abs)
    obtain m e where me: "?x = of_int m * pow2 e" using fl_dyadic[of u] by blast
    have "storable (Numeric ?x)" using assms unfolding sd .
    from fl_dyadic_storable[OF this me] show ?thesis unfolding sd .
  next
    case (Some n)
    then have f: "fl (round_sig n \<bar>?x\<bar>) = \<bar>?x\<bar>" by (auto simp: find_Some_iff)
    have sd: "shortest_decimal ?x = sgn ?x * round_sig n \<bar>?x\<bar>"
      using False Some by (simp add: shortest_decimal_def)
    from sg show ?thesis
    proof
      assume p: "sgn ?x = 1"
      then have "\<bar>?x\<bar> = ?x" by (simp add: sgn_1_pos)
      then show ?thesis using f p by (simp add: sd)
    next
      assume n: "sgn ?x = - 1"
      then have "\<bar>?x\<bar> = - ?x" by (simp add: sgn_1_neg)
      then show ?thesis using f n by (simp add: sd fl_minus)
    qed
  qed
qed

text \<open>
  The comparison of the query, on a value of the column: the band is the text of the
  parsed number exactly when the band, read as a number, is the parsed number.
\<close>

lemma band_eq_toString_iff:
  assumes "storable b"
  shows "b = toString_numeric (to_number v) \<longleftrightarrow> Number_of_numeric b = to_number v"
proof (cases b)
  case (Numeric r)
  have sr: "storable (Numeric r)" using assms Numeric by simp
  show ?thesis
  proof (cases "2 ^ 1024 \<le> \<bar>fl v\<bar>")
    case True
    then have "to_number v = PosInfinity \<or> to_number v = NegInfinity"
      by (simp add: to_number_def Let_def)
    then show ?thesis using Numeric
      by (auto simp: toString_numeric_def Number_of_numeric_def to_number_storable[OF sr])
  next
    case False
    then have t: "to_number v = Finite (fl v)" by (simp add: to_number_def Let_def)
    have "r = shortest_decimal (fl v) \<longleftrightarrow> fl r = fl v"
    proof
      assume e: "r = shortest_decimal (fl v)"
      then have "storable (Numeric (shortest_decimal (fl v)))" using sr by simp
      then show "fl r = fl v" unfolding e by (rule fl_shortest_decimal)
    next
      assume e: "fl r = fl v"
      show "r = shortest_decimal (fl v)"
        unfolding e[symmetric] using shortest_decimal_storable[OF sr] by simp
    qed
    then show ?thesis using Numeric
      by (simp add: t toString_numeric_def Number_of_numeric_def to_number_storable[OF sr])
  qed
next
  case NumericNaN
  have "to_number v \<noteq> NaN" by (simp add: to_number_def Let_def)
  then show ?thesis using NumericNaN
    by (cases "to_number v") (simp_all add: toString_numeric_def Number_of_numeric_def)
next
  case NumericInfinity
  then show ?thesis using assms by (simp add: storable_def)
next
  case NumericNegInfinity
  then show ?thesis using assms by (simp add: storable_def)
qed

lemma parseFloat_cases:
  "parseFloat s = NaN \<or> parseFloat s = PosInfinity \<or> parseFloat s = NegInfinity
   \<or> (\<exists>v. parseFloat s = to_number v)"
  by (auto simp: parseFloat_def Let_def split: prod.splits list.splits)

lemma band_eq_parseFloat_iff:
  assumes "storable b"
  shows "b = toString_numeric (parseFloat s) \<longleftrightarrow> Number_of_numeric b = parseFloat s"
proof -
  consider "parseFloat s = NaN" | "parseFloat s = PosInfinity" | "parseFloat s = NegInfinity"
    | v where "parseFloat s = to_number v"
    using parseFloat_cases[of s] by auto
  then show ?thesis
  proof cases
    case 1
    show ?thesis using assms unfolding 1
      by (cases b) (simp_all add: toString_numeric_def Number_of_numeric_def storable_def
          to_number_storable)
  next
    case 2
    show ?thesis using assms unfolding 2
      by (cases b) (simp_all add: toString_numeric_def Number_of_numeric_def storable_def
          to_number_storable)
  next
    case 3
    show ?thesis using assms unfolding 3
      by (cases b) (simp_all add: toString_numeric_def Number_of_numeric_def storable_def
          to_number_storable)
  next
    case 4
    show ?thesis unfolding 4 using assms by (rule band_eq_toString_iff)
  qed
qed


subsection \<open>The route\<close>

lemma parseFloat_6_5: "parseFloat ''6.5'' = Finite (13 / 2)"
proof -
  have "fl (13 / 2) = 13 / 2" using fl_half[of 13] by simp
  then show ?thesis
    by (simp add: parseFloat_def take_sign_def is_space_def is_digit_def digits_value_def
        exponent_part_def pow10_def to_number_def Let_def)
qed

lemma fl_6_50001: "fl (650001 / 100000) = 7318360653476124 * pow2 (- 50)"
  using fl_exact[of "650001 / 100000" "650001 / 100000 * 2 ^ 50" "- 50" 7318360653476124]
  by (simp add: pow2_def)

lemma parseFloat_6_50001: "parseFloat ''6.50001'' = Finite (7318360653476124 * pow2 (- 50))"
  by (simp add: parseFloat_def take_sign_def is_space_def is_digit_def digits_value_def
      exponent_part_def pow10_def to_number_def Let_def fl_6_50001)
     (simp add: pow2_def)

lemma parseFloat_sentinel: "parseFloat ''All IELTS Scores'' = NaN"
  by (simp add: parseFloat_def take_sign_def is_space_def is_digit_def Let_def)

lemma Number_of_numeric_bands:
  "Number_of_numeric (Numeric 7) = Finite 7"
  "Number_of_numeric (Numeric (15 / 2)) = Finite (15 / 2)"
  "Number_of_numeric (Numeric (13 / 2)) = Finite (13 / 2)"
proof -
  have "fl 7 = 7" "fl (15 / 2) = 15 / 2" "fl (13 / 2) = 13 / 2"
    using fl_half[of 14] fl_half[of 15] fl_half[of 13] by simp_all
  then show "Number_of_numeric (Numeric 7) = Finite 7"
    "Number_of_numeric (Numeric (15 / 2)) = Finite (15 / 2)"
    "Number_of_numeric (Numeric (13 / 2)) = Finite (13 / 2)"
    by (simp_all add: Number_of_numeric_def to_number_def Let_def)
qed

lemma storable_bands:
  "storable (Numeric 7)" "storable (Numeric (15 / 2))" "storable (Numeric (13 / 2))"
  by (simp_all add: storable_def)

text \<open>
  C8, as the code has it. The column \<open>ielts_overall\<close> is a \<open>numeric(2,1)\<close>, so every
  band in the table is a tenth between \<open>-9.9\<close> and \<open>9.9\<close>, or \<open>NaN\<close>. With an IELTS
  score \<open>s\<close> in the query and the database answering: when \<open>s\<close> is neither empty nor
  \<open>All IELTS Scores\<close>, the route returns exactly the courses that pass the other filters
  and whose overall band, read as a number, is the number \<open>parseFloat s\<close> (the courses
  with the band \<open>NaN\<close> when \<open>s\<close> does not start with a number); when \<open>s\<close> is empty or is
  \<open>All IELTS Scores\<close>, the score is not a filter at all.
\<close>

theorem getCourses_ielts_band:
  assumes "ieltsScore f = Some s" and "\<not> fails w 0"
    and "\<forall>c \<in> set (courses_table w). storable (course_ieltsOverall c)"
  shows "(s \<noteq> [] \<and> s \<noteq> ''All IELTS Scores'' \<longrightarrow>
           fst (get_courses f w) = Response 200 (Courses_body
             (map (leftJoin_universities w)
                (filter (\<lambda>c. list_all (\<lambda>cond. cond c) (conditions (Some (f\<lparr>ieltsScore := None\<rparr>)))
                            \<and> Number_of_numeric (course_ieltsOverall c) = parseFloat s)
                   (courses_table w)))))
     \<and> (s = [] \<or> s = ''All IELTS Scores'' \<longrightarrow>
           fst (get_courses f w) = Response 200 (Courses_body
             (map (leftJoin_universities w)
                (filter (\<lambda>c. list_all (\<lambda>cond. cond c) (conditions (Some (f\<lparr>ieltsScore := None\<rparr>))))
                   (courses_table w)))))"
proof -
  let ?others = "\<lambda>c. list_all (\<lambda>cond. cond c) (conditions (Some (f\<lparr>ieltsScore := None\<rparr>)))"
  have code: "(s \<noteq> [] \<and> s \<noteq> ''All IELTS Scores'' \<longrightarrow>
           fst (get_courses f w) = Response 200 (Courses_body
             (map (leftJoin_universities w)
                (filter (\<lambda>c. ?others c \<and> course_ieltsOverall c = toString_numeric (parseFloat s))
                   (courses_table w)))))
     \<and> (s = [] \<or> s = ''All IELTS Scores'' \<longrightarrow>
           fst (get_courses f w) = Response 200 (Courses_body
             (map (leftJoin_universities w) (filter ?others (courses_table w)))))"
    using assms(1,2)
    by (auto simp: get_courses_def getCourses_def conditions_def when_truthy_def io_defs
          fails_simps Let_def)
  have eq: "filter (\<lambda>c. ?others c \<and> course_ieltsOverall c = toString_numeric (parseFloat s))
              (courses_table w)
          = filter (\<lambda>c. ?others c \<and> Number_of_numeric (course_ieltsOverall c) = parseFloat s)
              (courses_table w)"
    using assms(3) by (intro filter_cong refl) (simp add: band_eq_parseFloat_iff)
  show ?thesis using code unfolding eq .
qed

theorem getCourses_ielts_band_witness:
  "ieltsScore (ielts_only ''6.5'') = Some ''6.5''
   \<and> ieltsScore (ielts_only ''6.50001'') = Some ''6.50001''
   \<and> \<not> fails catalog_world 0
   \<and> map course_ieltsOverall (courses_table catalog_world)
       = [Numeric 7, Numeric (15 / 2), Numeric (13 / 2), Numeric (15 / 2)]
   \<and> storable (Numeric 7) \<and> storable (Numeric (15 / 2)) \<and> storable (Numeric (13 / 2))
   \<and> fst (get_courses (ielts_only ''6.5'') catalog_world) = Response 200 (Courses_body
        [(sample_course 3 ''MSc Engineering Management'' 3 (Numeric (13 / 2)),
          Some \<lparr>university_id = 3, university_name = ''Imperial College London''\<rparr>)])
   \<and> fst (get_courses (ielts_only ''6.50001'') catalog_world) = Response 200 (Courses_body [])"
proof -
  have h1: "ieltsScore (ielts_only ''6.5'') = Some ''6.5''"
    and h1': "ieltsScore (ielts_only ''6.50001'') = Some ''6.50001''"
    by (simp_all add: ielts_only_def)
  have h2: "\<not> fails catalog_world 0" by (simp add: fails_def catalog_world_def empty_world_def)
  have b: "map course_ieltsOverall (courses_table catalog_world)
       = [Numeric 7, Numeric (15 / 2), Numeric (13 / 2), Numeric (15 / 2)]"
    by (simp add: catalog_world_def empty_world_def sample_course_def)
  have "\<forall>b \<in> set (map course_ieltsOverall (courses_table catalog_world)). storable b"
    unfolding b by (simp add: storable_bands)
  then have h3: "\<forall>c \<in> set (courses_table catalog_world). storable (course_ieltsOverall c)"
    by simp
  have n: "''6.5'' \<noteq> []" "''6.5'' \<noteq> ''All IELTS Scores''"
    "''6.50001'' \<noteq> []" "''6.50001'' \<noteq> ''All IELTS Scores''" by simp_all
  have e: "map (leftJoin_universities catalog_world)
             (filter (\<lambda>c. list_all (\<lambda>cond. cond c)
                             (conditions (Some ((ielts_only ''6.5'')\<lparr>ieltsScore := None\<rparr>)))
                           \<and> Number_of_numeric (course_ieltsOverall c) = parseFloat ''6.5'')
                (courses_table catalog_world))
           = [(sample_course 3 ''MSc Engineering Management'' 3 (Numeric (13 / 2)),
               Some \<lparr>university_id = 3, university_name = ''Imperial College London''\<rparr>)]"
    by (simp add: parseFloat_6_5 Number_of_numeric_bands conditions_def
        when_truthy_def ielts_only_def leftJoin_universities_def catalog_world_def
        empty_world_def sample_course_def)
  have e': "map (leftJoin_universities catalog_world)
             (filter (\<lambda>c. list_all (\<lambda>cond. cond c)
                             (conditions (Some ((ielts_only ''6.50001'')\<lparr>ieltsScore := None\<rparr>)))
                           \<and> Number_of_numeric (course_ieltsOverall c) = parseFloat ''6.50001'')
                (courses_table catalog_world))
           = []"
    by (simp add: parseFloat_6_50001 Number_of_numeric_bands catalog_world_def
        empty_world_def sample_course_def)
       (simp add: pow2_def)
  have r: "fst (get_courses (ielts_only ''6.5'') catalog_world) = Response 200 (Courses_body
        [(sample_course 3 ''MSc Engineering Management'' 3 (Numeric (13 / 2)),
          Some \<lparr>university_id = 3, university_name = ''Imperial College London''\<rparr>)])"
    using getCourses_ielts_band[OF h1 h2 h3] n e by simp
  have r': "fst (get_courses (ielts_only ''6.50001'') catalog_world) = Response 200 (Courses_body [])"
    using getCourses_ielts_band[OF h1' h2 h3] n e' by simp
  show ?thesis using h1 h1' h2 b storable_bands r r' by simp
qed

text \<open>
  C8 as first stated speaks of every value of the parameter. The value
  \<open>All IELTS Scores\<close> parses to \<open>NaN\<close>; no course of the catalogue has a band that reads
  as that number, and the route returns all four courses.
\<close>

theorem getCourses_ielts_sentinel_counterexample:
  "parseFloat ''All IELTS Scores'' = NaN
   \<and> map (\<lambda>c. Number_of_numeric (course_ieltsOverall c)) (courses_table catalog_world)
       = [Finite 7, Finite (15 / 2), Finite (13 / 2), Finite (15 / 2)]
   \<and> fst (get_courses (ielts_only ''All IELTS Scores'') catalog_world) = Response 200 (Courses_body
        [(sample_course 1 ''Master of Computer Science'' 1 (Numeric 7),
          Some \<lparr>university_id = 1, university_name = ''University of Oxford''\<rparr>),
         (sample_course 2 ''MBA - Master of Business Administration'' 2 (Numeric (15 / 2)),
          Some \<lparr>university_id = 2, university_name = ''University of Cambridge''\<rparr>),
         (sample_course 3 ''MSc Engineering Management'' 3 (Numeric (13 / 2)),
          Some \<lparr>university_id = 3, university_name = ''Imperial College London''\<rparr>),
         (sample_course 4 ''Master of Laws (LLM)'' 4 (Numeric (15 / 2)),
          Some \<lparr>university_id = 4, university_name = ''University College London''\<rparr>)])"
proof -
  have "map (\<lambda>c. Number_of_numeric (course_ieltsOverall c)) (courses_table catalog_world)
       = [Finite 7, Finite (15 / 2), Finite (13 / 2), Finite (15 / 2)]"
    by (simp add: Number_of_numeric_bands catalog_world_def empty_world_def sample_course_def)
  moreover have "fst (get_courses (ielts_only ''All IELTS Scores'') catalog_world)
      = Response 200 (Courses_body
        [(sample_course 1 ''Master of Computer Science'' 1 (Numeric 7),
          Some \<lparr>university_id = 1, university_name = ''University of Oxford''\<rparr>),
         (sample_course 2 ''MBA - Master of Business Administration'' 2 (Numeric (15 / 2)),
          Some \<lparr>university_id = 2, university_name = ''University of Cambridge''\<rparr>),
         (sample_course 3 ''MSc Engineering Management'' 3 (Numeric (13 / 2)),
          Some \<lparr>university_id = 3, university_name = ''Imperial College London''\<rparr>),
         (sample_course 4 ''Master of Laws (LLM)'' 4 (Numeric (15 / 2)),
          Some \<lparr>university_id = 4, university_name = ''University College London''\<rparr>)])"
    by (simp add: get_courses_def getCourses_def conditions_def when_truthy_def
        io_defs ielts_only_def leftJoin_universities_def catalog_world_def empty_world_def
        sample_course_def fails_def)
  ultimately show ?thesis using parseFloat_sentinel by simp
qed

end
